theory Spec2Isabelle
  imports Complex_Main "HOL-Library.Product_Lexorder"
begin

section \<open>Calendar dates and the text format \<^verbatim>\<open>%d.%m.%Y\<close>\<close>

text \<open>
  A calendar date is the triple (year, month, day). The lexicographic order on triples is
  the chronological order, which is how Python compares \<^verbatim>\<open>date\<close> objects. A
  \<^verbatim>\<open>time\<close> is (hour, minute, second, microsecond) and a \<^verbatim>\<open>datetime\<close> is a
  date with a time, compared in the same way.
\<close>

type_synonym date = "nat \<times> nat \<times> nat"

type_synonym time = "nat \<times> nat \<times> nat \<times> nat"

type_synonym datetime = "date \<times> time"

definition is_leap :: "nat \<Rightarrow> bool" where
  "is_leap y = (y mod 4 = 0 \<and> (y mod 100 \<noteq> 0 \<or> y mod 400 = 0))"

definition days_in_month :: "nat \<Rightarrow> nat \<Rightarrow> nat" where
  "days_in_month y m =
     (if m = 2 then (if is_leap y then 29 else 28)
      else if m = 4 \<or> m = 6 \<or> m = 9 \<or> m = 11 then 30 else 31)"

definition valid_date :: "date \<Rightarrow> bool" where
  "valid_date dt =
     (case dt of (y, m, d) \<Rightarrow>
        1 \<le> y \<and> y \<le> 9999 \<and> 1 \<le> m \<and> m \<le> 12 \<and> 1 \<le> d \<and> d \<le> days_in_month y m)"

text \<open>\<^verbatim>\<open>datetime.min.time()\<close> is 00:00:00 and \<^verbatim>\<open>datetime.max.time()\<close> is
  23:59:59.999999.\<close>

definition min_time :: time where
  "min_time = (0, 0, 0, 0)"

definition midnight :: time where
  "midnight = (0, 0, 0, 0)"

definition max_time :: time where
  "max_time = (23, 59, 59, 999999)"

definition combine :: "date \<Rightarrow> time \<Rightarrow> datetime" where
  "combine d t = (d, t)"

subsection \<open>Writing a date: \<^verbatim>\<open>date.strftime(FORMAT)\<close>\<close>

definition digit_char :: "nat \<Rightarrow> char" where
  "digit_char n = char_of (48 + n)"

definition pad2 :: "nat \<Rightarrow> string" where
  "pad2 n = [digit_char (n div 10 mod 10), digit_char (n mod 10)]"

text \<open>A number in decimal, without padding.\<close>

fun decimal :: "nat \<Rightarrow> string" where
  "decimal n = (if n < 10 then [digit_char n] else decimal (n div 10) @ [digit_char (n mod 10)])"

declare decimal.simps [simp del]

text \<open>Day and month are written with two digits. The year is written by \<^verbatim>\<open>%Y\<close> as
  the C library of Linux writes it: in decimal without padding, so that a year below
  1000 has fewer than four digits (year 999 gives \<^verbatim>\<open>05.01.999\<close>).\<close>

definition strftime :: "date \<Rightarrow> string" where
  "strftime dt = (case dt of (y, m, d) \<Rightarrow> pad2 d @ ''.'' @ pad2 m @ ''.'' @ decimal y)"

subsection \<open>Reading a date: \<^verbatim>\<open>%d.%m.%Y\<close> as \<^verbatim>\<open>to_datetime\<close> matches it\<close>

definition is_digit :: "char \<Rightarrow> bool" where
  "is_digit c = ((48::nat) \<le> of_char c \<and> of_char c \<le> (57::nat))"

definition digit_val :: "char \<Rightarrow> nat" where
  "digit_val c = of_char c - 48"

text \<open>The directive \<^verbatim>\<open>%d\<close> is the pattern \<^verbatim>\<open>3[0-1]|[1-2]\d|0[1-9]|[1-9]| [1-9]\<close>:
  two digits from 01 to 31, or one digit from 1 to 9, also after a blank.\<close>

fun match_d :: "string \<Rightarrow> nat option" where
  "match_d [a] = (if is_digit a \<and> 1 \<le> digit_val a then Some (digit_val a) else None)"
| "match_d [a, b] =
     (if a = CHR '' '' then
        (if is_digit b \<and> 1 \<le> digit_val b then Some (digit_val b) else None)
      else if is_digit a \<and> is_digit b \<and> 1 \<le> 10 * digit_val a + digit_val b
              \<and> 10 * digit_val a + digit_val b \<le> 31
      then Some (10 * digit_val a + digit_val b) else None)"
| "match_d _ = None"

text \<open>The directive \<^verbatim>\<open>%m\<close> is \<^verbatim>\<open>1[0-2]|0[1-9]|[1-9]\<close>.\<close>

fun match_m :: "string \<Rightarrow> nat option" where
  "match_m [a] = (if is_digit a \<and> 1 \<le> digit_val a then Some (digit_val a) else None)"
| "match_m [a, b] =
     (if is_digit a \<and> is_digit b \<and> 1 \<le> 10 * digit_val a + digit_val b
         \<and> 10 * digit_val a + digit_val b \<le> 12
      then Some (10 * digit_val a + digit_val b) else None)"
| "match_m _ = None"

text \<open>The directive \<^verbatim>\<open>%Y\<close> is \<^verbatim>\<open>\d\d\d\d\<close>.\<close>

fun match_Y :: "string \<Rightarrow> nat option" where
  "match_Y [a, b, c, d] =
     (if is_digit a \<and> is_digit b \<and> is_digit c \<and> is_digit d
      then Some (1000 * digit_val a + 100 * digit_val b + 10 * digit_val c + digit_val d)
      else None)"
| "match_Y _ = None"

definition not_dot :: "char \<Rightarrow> bool" where
  "not_dot c = (c \<noteq> CHR ''.'')"

text \<open>
  The whole text has to match day, dot, month, dot, year with nothing left over, and the
  three numbers have to name a day of the calendar. No directive matches a dot, so the
  day is the text before the first dot and the month the text between the first two.
  \<open>None\<close> is the \<^verbatim>\<open>ValueError\<close> of the library. (The library also limits the days a
  timestamp can hold, to the years 1677 to 2262 at its finest resolution; that limit is
  not modelled.)
\<close>

definition strptime :: "string \<Rightarrow> date option" where
  "strptime s =
     (case dropWhile not_dot s of
        [] \<Rightarrow> None
      | _ # r1 \<Rightarrow>
         (case dropWhile not_dot r1 of
            [] \<Rightarrow> None
          | _ # r2 \<Rightarrow>
             (case match_d (takeWhile not_dot s) of
                None \<Rightarrow> None
              | Some d \<Rightarrow>
                 (case match_m (takeWhile not_dot r1) of
                    None \<Rightarrow> None
                  | Some m \<Rightarrow>
                     (case match_Y r2 of
                        None \<Rightarrow> None
                      | Some y \<Rightarrow> if valid_date (y, m, d) then Some (y, m, d) else None)))))"

section \<open>The backing file\<close>

text \<open>
  A file is its sequence of lines and a line is its four fields, in the order of
  \<^verbatim>\<open>COLUMNS\<close>: every writer of the program (\<^verbatim>\<open>to_csv\<close> of the empty table and
  \<^verbatim>\<open>DictWriter.writerow\<close>) writes lines of exactly four fields. Quoting and line ends,
  which the csv writer and the reader of the library undo for each other, are not part of
  the model. A field is the text between two separators; a field written from a Python
  float is kept as the number it denotes (the amounts are exact reals here: floating
  point rounding is outside the model). The file system is the one file
  \<^verbatim>\<open>finance_data.csv\<close>, absent (\<open>None\<close>) or present with its lines.
\<close>

datatype field = Txt string | Flt real

type_synonym line = "field \<times> field \<times> field \<times> field"

type_synonym csv_file = "line list"

datatype error =
    FileNotFoundError
  | EmptyDataError
  | KeyError string
  | ValueError
  | TypeError

definition COLUMNS :: "string list" where
  "COLUMNS = [''date'', ''amount'', ''category'', ''description'']"

definition header_line :: line where
  "header_line = (Txt ''date'', Txt ''amount'', Txt ''category'', Txt ''description'')"

definition line_fields :: "line \<Rightarrow> field list" where
  "line_fields l = (case l of (a, b, c, d) \<Rightarrow> [a, b, c, d])"

section \<open>Tables\<close>

text \<open>
  A cell of a table read from the file: a missing value, a text, a number, the text of a
  number (a numeral in a column that is read as text), a timestamp at midnight of a day
  (the only timestamps the program makes come from \<^verbatim>\<open>%d.%m.%Y\<close>), the missing
  timestamp, or a position of the default row index.
\<close>

datatype cell = NaN | Str string | Num real | NumStr real | Ts date | NaT | Pos nat

text \<open>A table has its column labels (the fields of the header line), its row labels
  and its rows.\<close>

record frame =
  columns :: "field list"
  index :: "cell list"
  rows :: "cell list list"

text \<open>The texts that \<^verbatim>\<open>read_csv\<close> reads as a missing value by default.\<close>

definition na_values :: "string list" where
  "na_values = ['''', ''#N/A'', ''#N/A N/A'', ''#NA'', ''-1.#IND'', ''-1.#QNAN'', ''-NaN'',
     ''-nan'', ''1.#IND'', ''1.#QNAN'', ''<NA>'', ''N/A'', ''NA'', ''NULL'', ''NaN'',
     ''None'', ''n/a'', ''nan'', ''null'']"

definition is_na :: "field \<Rightarrow> bool" where
  "is_na f = (case f of Txt s \<Rightarrow> s \<in> set na_values | Flt x \<Rightarrow> False)"

subsection \<open>Numerals\<close>

text \<open>
  The reader converts a text to a number as follows: blanks are skipped, then come an
  optional sign, digits with at most one decimal point (at least one digit in all), an
  optional exponent (\<^verbatim>\<open>e\<close> or \<^verbatim>\<open>E\<close>, an optional sign, at least one digit), and
  blanks up to the end. \<open>None\<close> means that the text is no numeral.
\<close>

definition is_space :: "char \<Rightarrow> bool" where
  "is_space c = (c = CHR '' '' \<or> c = CHR 0x09 \<or> c = CHR 0x0A \<or> c = CHR 0x0B
                 \<or> c = CHR 0x0C \<or> c = CHR 0x0D)"

definition strip_sign :: "string \<Rightarrow> bool \<times> string" where
  "strip_sign s =
     (case s of
        [] \<Rightarrow> (False, [])
      | c # r \<Rightarrow> if c = CHR ''-'' then (True, r) else if c = CHR ''+'' then (False, r)
                 else (False, s))"

definition digits_value :: "string \<Rightarrow> nat" where
  "digits_value ds = foldl (\<lambda>n c. 10 * n + digit_val c) 0 ds"

definition numeral :: "string \<Rightarrow> real option" where
  "numeral s =
     (let (neg, s2) = strip_sign (dropWhile is_space s);
          ip = takeWhile is_digit s2;
          s3 = dropWhile is_digit s2;
          has_dot = (s3 \<noteq> [] \<and> hd s3 = CHR ''.'');
          fp = (if has_dot then takeWhile is_digit (tl s3) else []);
          s4 = (if has_dot then dropWhile is_digit (tl s3) else s3);
          has_exp = (s4 \<noteq> [] \<and> (hd s4 = CHR ''e'' \<or> hd s4 = CHR ''E''));
          (eneg, s5) = strip_sign (tl s4);
          ed = takeWhile is_digit s5;
          s6 = dropWhile is_digit s5;
          rest = (if has_exp then s6 else s4);
          mantissa = real (digits_value ip) + real (digits_value fp) / 10 ^ length fp;
          scale = (if has_exp
                   then (if eneg then 1 / 10 ^ digits_value ed else 10 ^ digits_value ed)
                   else 1);
          v = mantissa * scale
      in if ip = [] \<and> fp = [] then None
         else if has_exp \<and> ed = [] then None
         else if dropWhile is_space rest \<noteq> [] then None
         else Some (if neg then - v else v))"

subsection \<open>Reading the file\<close>

text \<open>
  The reader gives every column one type. A column in which every field is a numeral or
  a marker of a missing value is read as numbers; any other column is read as text, and
  then a numeral in it stays the text it is. (The reader also takes a column of the
  words \<^verbatim>\<open>True\<close> and \<^verbatim>\<open>False\<close> for booleans and reads the words for infinity as
  numbers; neither is modelled.)
\<close>

definition numeric_field :: "field \<Rightarrow> real option" where
  "numeric_field f = (case f of Flt x \<Rightarrow> Some x | Txt s \<Rightarrow> numeral s)"

definition numeric_column :: "field list \<Rightarrow> bool" where
  "numeric_column fs = (\<forall>f\<in>set fs. is_na f \<or> numeric_field f \<noteq> None)"

text \<open>One field of a column, given whether the column is read as numbers.\<close>

definition read_field :: "bool \<Rightarrow> field \<Rightarrow> cell" where
  "read_field numeric f =
     (if is_na f then NaN
      else if numeric then (case numeric_field f of None \<Rightarrow> NaN | Some x \<Rightarrow> Num x)
      else (case f of Txt s \<Rightarrow> Str s | Flt x \<Rightarrow> NumStr x))"

definition field1 :: "line \<Rightarrow> field" where
  "field1 l = fst l"

definition field2 :: "line \<Rightarrow> field" where
  "field2 l = fst (snd l)"

definition field3 :: "line \<Rightarrow> field" where
  "field3 l = fst (snd (snd l))"

definition field4 :: "line \<Rightarrow> field" where
  "field4 l = snd (snd (snd l))"

text \<open>The rows of the table: every line with its four fields read in the type of their
  columns.\<close>

definition typed_rows :: "line list \<Rightarrow> cell list list" where
  "typed_rows ls =
     map (\<lambda>l. [read_field (numeric_column (map field1 ls)) (field1 l),
                read_field (numeric_column (map field2 ls)) (field2 l),
                read_field (numeric_column (map field3 ls)) (field3 l),
                read_field (numeric_column (map field4 ls)) (field4 l)]) ls"

text \<open>
  \<^verbatim>\<open>pd.read_csv(CSV_FILE)\<close>: the first line gives the column labels, every other line
  is a row, and the rows are numbered from 0. An absent file raises
  \<^verbatim>\<open>FileNotFoundError\<close>, a file without any line \<^verbatim>\<open>EmptyDataError\<close>. (The reader
  renames a label that is empty or that occurs twice in the first line; the model keeps
  the fields of the first line as they are, which is what the reader does when they are
  distinct and none is empty.)
\<close>

definition read_csv :: "csv_file option \<Rightarrow> error + frame" where
  "read_csv fs =
     (case fs of
        None \<Rightarrow> Inl FileNotFoundError
      | Some [] \<Rightarrow> Inl EmptyDataError
      | Some (h # ls) \<Rightarrow>
          Inr \<lparr>columns = line_fields h,
               index = map Pos [0..<length ls],
               rows = typed_rows ls\<rparr>)"

fun position :: "'a \<Rightarrow> 'a list \<Rightarrow> nat option" where
  "position a [] = None"
| "position a (x # xs) =
     (if x = a then Some 0 else (case position a xs of None \<Rightarrow> None | Some i \<Rightarrow> Some (Suc i)))"

definition cell_at :: "cell list \<Rightarrow> nat \<Rightarrow> cell" where
  "cell_at r i = (if i < length r then r ! i else NaN)"

text \<open>\<^verbatim>\<open>df[name]\<close>: the cells of the first column with that label, or \<^verbatim>\<open>KeyError\<close>.\<close>

definition getcol :: "string \<Rightarrow> frame \<Rightarrow> error + cell list" where
  "getcol name df =
     (case position (Txt name) (columns df) of
        None \<Rightarrow> Inl (KeyError name)
      | Some i \<Rightarrow> Inr (map (\<lambda>r. cell_at r i) (rows df)))"

text \<open>\<^verbatim>\<open>df[name] = values\<close> for a column that exists: its cells are replaced.\<close>

definition setcol :: "string \<Rightarrow> cell list \<Rightarrow> frame \<Rightarrow> frame" where
  "setcol name vs df =
     (case position (Txt name) (columns df) of
        None \<Rightarrow> df
      | Some i \<Rightarrow> df\<lparr>rows := map (\<lambda>(r, v). r[i := v]) (zip (rows df) vs)\<rparr>)"

text \<open>\<^verbatim>\<open>df.loc[mask]\<close> and \<^verbatim>\<open>df[mask]\<close>: the rows whose mask is true, with their
  labels.\<close>

definition loc :: "bool list \<Rightarrow> frame \<Rightarrow> frame" where
  "loc msk df =
     df\<lparr>index := map snd (filter fst (zip msk (index df))),
        rows := map snd (filter fst (zip msk (rows df)))\<rparr>"

text \<open>\<^verbatim>\<open>df.empty\<close>: no rows or no columns.\<close>

definition is_empty :: "frame \<Rightarrow> bool" where
  "is_empty df = (rows df = [] \<or> columns df = [])"

section \<open>The class \<^verbatim>\<open>CSV\<close>\<close>

text \<open>
  \<^verbatim>\<open>initialize_csv\<close> tries to read the file and creates it, with the header line
  only, when the read raises \<^verbatim>\<open>FileNotFoundError\<close>. Any other error of the read is not
  caught. The result is the file afterwards and the outcome of the call.
\<close>

definition initialize_csv :: "csv_file option \<Rightarrow> csv_file option \<times> (error + unit)" where
  "initialize_csv fs =
     (case read_csv fs of
        Inr _ \<Rightarrow> (fs, Inr ())
      | Inl FileNotFoundError \<Rightarrow> (Some [header_line], Inr ())
      | Inl e \<Rightarrow> (fs, Inl e))"

text \<open>\<^verbatim>\<open>add_entry\<close> opens the file for appending, which creates it when it is absent,
  and writes one line: the date in the fixed format, then the three other values as they
  are.\<close>

definition new_entry :: "date \<Rightarrow> real \<Rightarrow> string \<Rightarrow> string \<Rightarrow> line" where
  "new_entry d amount category description =
     (Txt (strftime d), Flt amount, Txt category, Txt description)"

definition add_entry :: "date \<Rightarrow> real \<Rightarrow> string \<Rightarrow> string \<Rightarrow> csv_file option \<Rightarrow> csv_file option" where
  "add_entry d amount category description fs =
     (case fs of
        None \<Rightarrow> Some [new_entry d amount category description]
      | Some f \<Rightarrow> Some (f @ [new_entry d amount category description]))"

text \<open>The texts that \<^verbatim>\<open>to_datetime\<close> takes for the missing timestamp.\<close>

definition nat_strings :: "string list" where
  "nat_strings = [''NaT'', ''nat'', ''NAT'', ''nan'', ''NaN'', ''NAN'']"

text \<open>
  \<^verbatim>\<open>pd.to_datetime(column, format=FORMAT)\<close> on one cell: a missing value becomes the
  missing timestamp without any error, a timestamp stays, a text is matched against the
  format, and a number, or the text of one, never matches it.
\<close>

definition to_datetime_cell :: "cell \<Rightarrow> error + cell" where
  "to_datetime_cell c =
     (case c of
        NaN \<Rightarrow> Inr NaT
      | NaT \<Rightarrow> Inr NaT
      | Ts d \<Rightarrow> Inr (Ts d)
      | Str s \<Rightarrow>
          if s = [] \<or> s \<in> set nat_strings then Inr NaT
          else (case strptime s of None \<Rightarrow> Inl ValueError | Some d \<Rightarrow> Inr (Ts d))
      | Num x \<Rightarrow> Inl ValueError
      | NumStr x \<Rightarrow> Inl ValueError
      | Pos n \<Rightarrow> Inl ValueError)"

text \<open>The whole column is converted before anything else happens; the first cell that
  fails ends the conversion with its error.\<close>

fun to_datetime :: "cell list \<Rightarrow> error + cell list" where
  "to_datetime [] = Inr []"
| "to_datetime (c # cs) =
     (case to_datetime_cell c of
        Inl e \<Rightarrow> Inl e
      | Inr c' \<Rightarrow> (case to_datetime cs of Inl e \<Rightarrow> Inl e | Inr cs' \<Rightarrow> Inr (c' # cs')))"

text \<open>Comparing a timestamp cell, which is at midnight, with a \<^verbatim>\<open>datetime\<close>; the
  missing timestamp compares false with everything.\<close>

definition cell_ge :: "cell \<Rightarrow> datetime \<Rightarrow> bool" where
  "cell_ge c t = (case c of Ts d \<Rightarrow> t \<le> (d, midnight) | _ \<Rightarrow> False)"

definition cell_le :: "cell \<Rightarrow> datetime \<Rightarrow> bool" where
  "cell_le c t = (case c of Ts d \<Rightarrow> (d, midnight) \<le> t | _ \<Rightarrow> False)"

definition get_transactions :: "date \<Rightarrow> date \<Rightarrow> csv_file option \<Rightarrow> error + frame" where
  "get_transactions start_date end_date fs =
     (case read_csv fs of
        Inl e \<Rightarrow> Inl e
      | Inr df \<Rightarrow>
         (case getcol ''date'' df of
            Inl e \<Rightarrow> Inl e
          | Inr col \<Rightarrow>
             (case to_datetime col of
                Inl e \<Rightarrow> Inl e
              | Inr dates \<Rightarrow>
                 (let df' = setcol ''date'' dates df;
                      start_dt = combine start_date min_time;
                      end_dt = combine end_date max_time;
                      msk = map (\<lambda>c. cell_ge c start_dt \<and> cell_le c end_dt) dates
                  in Inr (loc msk df')))))"

section \<open>The reports\<close>

text \<open>
  The amounts of a column as numbers. A sum skips a missing value, which is the same as
  counting it as 0; a cell that is no number makes the total useless to the program (the
  library concatenates texts, and the subtraction or the formatting that follows raises),
  so it ends the computation with \<^verbatim>\<open>TypeError\<close>.
\<close>

fun numeric_values :: "cell list \<Rightarrow> error + real list" where
  "numeric_values [] = Inr []"
| "numeric_values (c # cs) =
     (case c of
        Num x \<Rightarrow> (case numeric_values cs of Inl e \<Rightarrow> Inl e | Inr xs \<Rightarrow> Inr (x # xs))
      | NaN \<Rightarrow> (case numeric_values cs of Inl e \<Rightarrow> Inl e | Inr xs \<Rightarrow> Inr (0 # xs))
      | _ \<Rightarrow> Inl TypeError)"

text \<open>\<^verbatim>\<open>column.sum()\<close>\<close>

definition series_sum :: "cell list \<Rightarrow> error + real" where
  "series_sum cs = (case numeric_values cs of Inl e \<Rightarrow> Inl e | Inr xs \<Rightarrow> Inr (sum_list xs))"

text \<open>\<^verbatim>\<open>df[df["category"] == name]\<close>\<close>

definition of_category :: "string \<Rightarrow> frame \<Rightarrow> error + frame" where
  "of_category name df =
     (case getcol ''category'' df of
        Inl e \<Rightarrow> Inl e
      | Inr cat \<Rightarrow> Inr (loc (map (\<lambda>c. c = Str name) cat) df))"

text \<open>\<^verbatim>\<open>df[df["category"] == name]["amount"].sum()\<close>\<close>

definition category_total :: "string \<Rightarrow> frame \<Rightarrow> error + real" where
  "category_total name df =
     (case of_category name df of
        Inl e \<Rightarrow> Inl e
      | Inr sel \<Rightarrow> (case getcol ''amount'' sel of Inl e \<Rightarrow> Inl e | Inr amounts \<Rightarrow> series_sum amounts))"

text \<open>The summary that \<^verbatim>\<open>main\<close> computes from the retrieved table: total income,
  total expense and net savings.\<close>

definition summarize :: "frame \<Rightarrow> error + real \<times> real \<times> real" where
  "summarize df =
     (case category_total ''Income'' df of
        Inl e \<Rightarrow> Inl e
      | Inr total_income \<Rightarrow>
         (case category_total ''Expense'' df of
            Inl e \<Rightarrow> Inl e
          | Inr total_expense \<Rightarrow>
              Inr (total_income, total_expense, total_income - total_expense)))"

subsection \<open>\<^verbatim>\<open>plot_expense_analysis\<close>\<close>

text \<open>
  \<^verbatim>\<open>groupby("description")["amount"].sum()\<close>: the rows are gone through in order and
  each amount is added to the total of its key. A row whose key is missing belongs to no
  group. The result is the mapping from key to total (the order in which the library
  lists the groups is not modelled).
\<close>

fun groupby_sum :: "(cell \<times> cell) list \<Rightarrow> (cell \<rightharpoonup> real) \<Rightarrow> error + (cell \<rightharpoonup> real)" where
  "groupby_sum [] m = Inr m"
| "groupby_sum ((k, v) # kvs) m =
     (if k = NaN \<or> k = NaT then groupby_sum kvs m
      else (case v of
              Num x \<Rightarrow> groupby_sum kvs (m(k \<mapsto> (case m k of None \<Rightarrow> x | Some t \<Rightarrow> t + x)))
            | NaN \<Rightarrow> groupby_sum kvs (m(k \<mapsto> (case m k of None \<Rightarrow> 0 | Some t \<Rightarrow> t)))
            | _ \<Rightarrow> Inl TypeError))"

text \<open>\<^verbatim>\<open>expense_df.groupby("description")["amount"].sum()\<close>: the keys of the rows and the
  totals by key.\<close>

definition groupby_description :: "frame \<Rightarrow> error + cell list \<times> (cell \<rightharpoonup> real)" where
  "groupby_description df =
     (case getcol ''description'' df of
        Inl e \<Rightarrow> Inl e
      | Inr keys \<Rightarrow>
         (case getcol ''amount'' df of
            Inl e \<Rightarrow> Inl e
          | Inr amounts \<Rightarrow>
             (case groupby_sum (zip keys amounts) Map.empty of
                Inl e \<Rightarrow> Inl e
              | Inr m \<Rightarrow> Inr (keys, m))))"

text \<open>What the function leaves on the page: nothing, the note that there are no
  expenses, or the pie of the totals by description.\<close>

datatype analysis = No_analysis | No_expenses string | Pie "cell \<rightharpoonup> real"

text \<open>
  \<^verbatim>\<open>expense_by_category.plot(kind='pie', ...)\<close> and \<^verbatim>\<open>st.pyplot(fig)\<close>. The plot
  refuses a negative total with \<^verbatim>\<open>ValueError\<close>. Wedges whose sizes sum to zero cannot
  be drawn, which ends with \<^verbatim>\<open>ValueError\<close> as well: that is the case when every total
  is zero, and when the series has no entry at all. Every entry of the series has its key
  among the keys of the rows.
\<close>

definition draw_pie :: "cell list \<Rightarrow> (cell \<rightharpoonup> real) \<Rightarrow> error + analysis" where
  "draw_pie keys m =
     (if \<exists>k\<in>set keys. (case m k of None \<Rightarrow> False | Some v \<Rightarrow> v < 0) then Inl ValueError
      else if \<forall>k\<in>set keys. (case m k of None \<Rightarrow> True | Some v \<Rightarrow> v = 0) then Inl ValueError
      else Inr (Pie m))"

definition plot_expense_analysis :: "frame \<Rightarrow> error + analysis" where
  "plot_expense_analysis df =
     (if is_empty df then Inr No_analysis
      else (case of_category ''Expense'' df of
              Inl e \<Rightarrow> Inl e
            | Inr expense_df \<Rightarrow>
                if is_empty expense_df then Inr (No_expenses ''No expenses to analyze.'')
                else (case groupby_description expense_df of
                        Inl e \<Rightarrow> Inl e
                      | Inr (keys, expense_by_category) \<Rightarrow> draw_pie keys expense_by_category)))"

subsection \<open>\<^verbatim>\<open>plot_transactions\<close>\<close>

definition remove_at :: "nat \<Rightarrow> 'a list \<Rightarrow> 'a list" where
  "remove_at i xs = take i xs @ drop (Suc i) xs"

text \<open>\<^verbatim>\<open>df.set_index(name, inplace=True)\<close>: the cells of the column become the row
  labels and the column leaves the table.\<close>

definition set_index :: "string \<Rightarrow> frame \<Rightarrow> error + frame" where
  "set_index name df =
     (case position (Txt name) (columns df) of
        None \<Rightarrow> Inl (KeyError name)
      | Some i \<Rightarrow>
          Inr \<lparr>columns = remove_at i (columns df),
               index = map (\<lambda>r. cell_at r i) (rows df),
               rows = map (remove_at i) (rows df)\<rparr>)"

fun days_of :: "cell list \<Rightarrow> date list" where
  "days_of [] = []"
| "days_of (Ts d # ls) = d # days_of ls"
| "days_of (_ # ls) = days_of ls"

text \<open>
  \<^verbatim>\<open>.resample("D")["amount"].sum()\<close> on rows labelled by timestamps: one entry for
  every day from the earliest label to the latest, holding the sum of the amounts of the
  rows of that day (0 for a day without rows); no entry at all when there are no rows.
\<close>

definition resample_sum :: "cell list \<Rightarrow> cell list \<Rightarrow> error + (date \<rightharpoonup> real)" where
  "resample_sum labels amounts =
     (case numeric_values amounts of
        Inl e \<Rightarrow> Inl e
      | Inr xs \<Rightarrow>
          Inr (\<lambda>d. if days_of labels \<noteq> [] \<and> Min (set (days_of labels)) \<le> d
                       \<and> d \<le> Max (set (days_of labels))
                    then Some (sum_list (map snd (filter (\<lambda>(l, x). l = Ts d) (zip labels xs))))
                    else None))"

text \<open>\<^verbatim>\<open>.reindex(labels, fill_value=fill)\<close>: one entry for each of the given labels, in
  their order, with the value the series has at that label, or the fill value when it
  has none.\<close>

definition reindex :: "cell list \<Rightarrow> real \<Rightarrow> (date \<rightharpoonup> real) \<Rightarrow> (cell \<times> real) list" where
  "reindex labels fill s =
     map (\<lambda>l. (l, case l of
                     Ts d \<Rightarrow> (case s d of None \<Rightarrow> fill | Some v \<Rightarrow> v)
                   | _ \<Rightarrow> fill)) labels"

text \<open>\<^verbatim>\<open>df[df["category"] == name].resample("D")["amount"].sum().reindex(df.index,
  fill_value=0)\<close>\<close>

definition daily :: "string \<Rightarrow> frame \<Rightarrow> error + (cell \<times> real) list" where
  "daily name df =
     (case of_category name df of
        Inl e \<Rightarrow> Inl e
      | Inr sel \<Rightarrow>
         (case getcol ''amount'' sel of
            Inl e \<Rightarrow> Inl e
          | Inr amounts \<Rightarrow>
             (case resample_sum (index sel) amounts of
                Inl e \<Rightarrow> Inl e
              | Inr s \<Rightarrow> Inr (reindex (index df) 0 s))))"

text \<open>What is drawn: nothing, or the income line and the expense line, each a list of
  (label, value) points.\<close>

datatype chart = No_chart | Lines "(cell \<times> real) list" "(cell \<times> real) list"

text \<open>
  The function assigns to the column \<^verbatim>\<open>date\<close> of the table it is given and calls
  \<^verbatim>\<open>set_index\<close> with \<^verbatim>\<open>inplace=True\<close> on it, so the table is part of the result:
  the first component is the table as the call leaves it, the second what was drawn, or
  the error raised.
\<close>

definition plot_transactions :: "frame \<Rightarrow> frame \<times> (error + chart)" where
  "plot_transactions df =
     (if is_empty df then (df, Inr No_chart)
      else (case getcol ''date'' df of
              Inl e \<Rightarrow> (df, Inl e)
            | Inr col \<Rightarrow>
               (case to_datetime col of
                  Inl e \<Rightarrow> (df, Inl e)
                | Inr dates \<Rightarrow>
                   (case set_index ''date'' (setcol ''date'' dates df) of
                      Inl e \<Rightarrow> (setcol ''date'' dates df, Inl e)
                    | Inr df' \<Rightarrow>
                       (df', case daily ''Income'' df' of
                               Inl e \<Rightarrow> Inl e
                             | Inr income_df \<Rightarrow>
                                (case daily ''Expense'' df' of
                                   Inl e \<Rightarrow> Inl e
                                 | Inr expense_df \<Rightarrow> Inr (Lines income_df expense_df)))))))"

section \<open>The view of \<^verbatim>\<open>main\<close>\<close>

text \<open>
  Tables are objects that \<^verbatim>\<open>plot_transactions\<close> changes in place, and \<^verbatim>\<open>main\<close> hands
  copies to the two plot functions. The objects live in a store, addressed by their
  position; \<^verbatim>\<open>df.copy()\<close> puts a new object with the same content at a new address.
\<close>

type_synonym store = "frame list"

definition copy :: "nat \<Rightarrow> store \<Rightarrow> nat \<times> store" where
  "copy r st = (length st, st @ [st ! r])"

definition plot_transactions_at :: "nat \<Rightarrow> store \<Rightarrow> store \<times> (error + chart)" where
  "plot_transactions_at r st =
     (case plot_transactions (st ! r) of (df', out) \<Rightarrow> (st[r := df'], out))"

text \<open>What a run of the view does, in order: the call of \<^verbatim>\<open>CSV.get_transactions\<close>, what
  it puts on the page, and the exception that ends it, if any.\<close>

datatype action =
    Call_get_transactions date date
  | St_error string
  | St_write string
  | St_dataframe frame
  | St_subheader string
  | St_metric string real
  | St_lines "(cell \<times> real) list" "(cell \<times> real) list"
  | St_pie "cell \<rightharpoonup> real"
  | Raised error

definition chart_actions :: "chart \<Rightarrow> action list" where
  "chart_actions c = (case c of No_chart \<Rightarrow> [] | Lines i e \<Rightarrow> [St_lines i e])"

definition analysis_actions :: "analysis \<Rightarrow> action list" where
  "analysis_actions a =
     (case a of No_analysis \<Rightarrow> [] | No_expenses msg \<Rightarrow> [St_write msg] | Pie m \<Rightarrow> [St_pie m])"

text \<open>The summary and the two plots for the table at address \<open>r\<close>. (The metrics are
  kept as numbers; their formatting as currency is not modelled.)\<close>

definition show_reports :: "nat \<Rightarrow> store \<Rightarrow> store \<times> action list" where
  "show_reports r st =
     (case summarize (st ! r) of
        Inl e \<Rightarrow> (st, [Raised e])
      | Inr (total_income, total_expense, net_savings) \<Rightarrow>
         (let metrics = [St_subheader ''Summary'',
                         St_metric ''Total Income'' total_income,
                         St_metric ''Total Expense'' total_expense,
                         St_metric ''Net Savings'' net_savings,
                         St_subheader ''Transaction Plot''];
              (c1, st1) = copy r st;
              (st2, plotted) = plot_transactions_at c1 st1
          in (case plotted of
                Inl e \<Rightarrow> (st2, metrics @ [Raised e])
              | Inr ch \<Rightarrow>
                 (let (c2, st3) = copy r st2
                  in (st3, metrics @ chart_actions ch @ [St_subheader ''Expense Analysis'']
                           @ (case plot_expense_analysis (st3 ! c2) of
                                Inl e \<Rightarrow> [Raised e]
                              | Inr an \<Rightarrow> analysis_actions an))))))"

definition view_transactions :: "date \<Rightarrow> date \<Rightarrow> csv_file option \<Rightarrow> store \<times> action list" where
  "view_transactions start_date end_date fs =
     (if end_date < start_date then ([], [St_error ''Error: Start date cannot be after end date.''])
      else (case get_transactions start_date end_date fs of
              Inl e \<Rightarrow> ([], [Call_get_transactions start_date end_date, Raised e])
            | Inr df \<Rightarrow>
                if is_empty df
                then ([df], [Call_get_transactions start_date end_date,
                             St_write ''No transactions found in the selected date range.''])
                else (case show_reports 0 [df] of
                        (st, acts) \<Rightarrow>
                          (st, [Call_get_transactions start_date end_date,
                                St_write (''Transactions from '' @ strftime start_date
                                          @ '' to '' @ strftime end_date),
                                St_dataframe df] @ acts))))"

section \<open>Transactions as they are entered and as they come back\<close>

text \<open>The arguments of one call of \<^verbatim>\<open>add_entry\<close>: date, amount, category,
  description.\<close>

type_synonym entry = "date \<times> real \<times> string \<times> string"

definition add_entries :: "entry list \<Rightarrow> csv_file option \<Rightarrow> csv_file option" where
  "add_entries es fs = fold (\<lambda>(d, a, c, s). add_entry d a c s) es fs"

text \<open>A retrieved transaction: its day, its amount, its category and its description,
  which is \<open>None\<close> when the file has no text for it.\<close>

type_synonym txn = "date \<times> real \<times> string \<times> string option"

definition txn_cells :: "txn \<Rightarrow> cell list" where
  "txn_cells t =
     (case t of (d, a, c, s) \<Rightarrow>
        [Ts d, Num a, Str c, (case s of None \<Rightarrow> NaN | Some x \<Rightarrow> Str x)])"

text \<open>The table of a list of retrieved transactions, with the given row labels.\<close>

definition ledger_frame :: "cell list \<Rightarrow> txn list \<Rightarrow> frame" where
  "ledger_frame idx ts = \<lparr>columns = map Txt COLUMNS, index = idx, rows = map txn_cells ts\<rparr>"

definition t_date :: "txn \<Rightarrow> date" where
  "t_date t = fst t"

definition t_amount :: "txn \<Rightarrow> real" where
  "t_amount t = fst (snd t)"

definition t_category :: "txn \<Rightarrow> string" where
  "t_category t = fst (snd (snd t))"

definition t_description :: "txn \<Rightarrow> string option" where
  "t_description t = snd (snd (snd t))"

section \<open>Notions of the specification\<close>

text \<open>The definitions of this section do not come from the program: they say, in the
  words of the specification, what the statements below compare the program with.\<close>

definition entry_line :: "entry \<Rightarrow> line" where
  "entry_line e = (case e of (d, a, c, s) \<Rightarrow> new_entry d a c s)"

text \<open>A valid transaction: a day of the calendar, a positive amount, and one of the two
  categories.\<close>

definition valid_entry :: "entry \<Rightarrow> bool" where
  "valid_entry e =
     (case e of (d, a, c, s) \<Rightarrow>
        valid_date d \<and> 0 < a \<and> (c = ''Income'' \<or> c = ''Expense''))"

definition e_date :: "entry \<Rightarrow> date" where
  "e_date e = fst e"

definition e_amount :: "entry \<Rightarrow> real" where
  "e_amount e = fst (snd e)"

definition e_category :: "entry \<Rightarrow> string" where
  "e_category e = fst (snd (snd e))"

definition e_description :: "entry \<Rightarrow> string" where
  "e_description e = snd (snd (snd e))"

text \<open>
  The timestamps of the reader count nanoseconds in 64 bits and reach from 21 September
  1677 to 11 April 2262. The conversion of a day outside of them is not modelled, and
  the statements about entered transactions are about days of the years 1678 to 2261,
  which are all written with four digits.
\<close>

definition within_timestamps :: "date \<Rightarrow> bool" where
  "within_timestamps d = (1678 \<le> fst d \<and> fst d \<le> 2261)"

text \<open>
  A text that the reader certainly leaves a text: it holds a character that no numeral
  has, and it is neither a marker of a missing value nor, without the blanks around it
  and in lower case, one of the words that the reader takes for a boolean or for
  infinity.
\<close>

definition numeral_char :: "char \<Rightarrow> bool" where
  "numeral_char c =
     (is_digit c \<or> is_space c \<or> c = CHR ''+'' \<or> c = CHR ''-'' \<or> c = CHR ''.''
      \<or> c = CHR ''e'' \<or> c = CHR ''E'')"

definition to_lower :: "char \<Rightarrow> char" where
  "to_lower c =
     (if (65::nat) \<le> of_char c \<and> of_char c \<le> (90::nat) then char_of (of_char c + (32::nat)) else c)"

definition strip :: "string \<Rightarrow> string" where
  "strip s = rev (dropWhile is_space (rev (dropWhile is_space s)))"

definition special_words :: "string list" where
  "special_words = [''true'', ''false'', ''inf'', ''+inf'', ''-inf'', ''infinity'',
     ''+infinity'', ''-infinity'']"

definition plain_text :: "string \<Rightarrow> bool" where
  "plain_text s =
     (s \<notin> set na_values \<and> map to_lower (strip s) \<notin> set special_words
      \<and> (\<exists>c\<in>set s. \<not> numeral_char c))"

text \<open>The descriptions make a column of text: one of them is certainly a text, or all of
  them are markers of a missing value.\<close>

definition text_column :: "string list \<Rightarrow> bool" where
  "text_column ds = ((\<exists>d\<in>set ds. plain_text d) \<or> (\<forall>d\<in>set ds. d \<in> set na_values))"

text \<open>An entered transaction as it comes back: the description is missing when its
  text is one that the reader takes for a missing value.\<close>

definition retrieved :: "entry \<Rightarrow> txn" where
  "retrieved e =
     (case e of (d, a, c, s) \<Rightarrow> (d, a, c, if s \<in> set na_values then None else Some s))"

text \<open>The date field of a stored line is unreadable when it holds something that is
  neither a date in the fixed format nor a marker of a missing value; it is missing when
  it holds such a marker (the empty text is one).\<close>

definition unreadable_date :: "line \<Rightarrow> bool" where
  "unreadable_date l =
     (case fst l of
        Flt x \<Rightarrow> True
      | Txt t \<Rightarrow> t \<notin> set na_values \<and> t \<notin> set nat_strings \<and> strptime t = None)"


text \<open>The day of a stored line, when its date field parses under the fixed format.\<close>

definition row_day :: "line \<Rightarrow> date option" where
  "row_day l =
     (case fst l of
        Flt x \<Rightarrow> None
      | Txt t \<Rightarrow> if t \<in> set na_values \<or> t \<in> set nat_strings then None else strptime t)"

text \<open>A stored line as a row of the table retrieved from the lines \<open>ls\<close>: its day, and
  its three other fields read in the type of their columns.\<close>

definition loaded :: "line list \<Rightarrow> line \<Rightarrow> cell list" where
  "loaded ls l =
     [case row_day l of None \<Rightarrow> NaT | Some d \<Rightarrow> Ts d,
      read_field (numeric_column (map field2 ls)) (field2 l),
      read_field (numeric_column (map field3 ls)) (field3 l),
      read_field (numeric_column (map field4 ls)) (field4 l)]"

text \<open>The range by days, both bounds included, and the numbered lines of a ledger that
  lie in it.\<close>

definition in_range :: "date \<Rightarrow> date \<Rightarrow> line \<Rightarrow> bool" where
  "in_range s e l = (case row_day l of None \<Rightarrow> False | Some d \<Rightarrow> s \<le> d \<and> d \<le> e)"

definition kept :: "date \<Rightarrow> date \<Rightarrow> line list \<Rightarrow> (nat \<times> line) list" where
  "kept s e ls = filter (\<lambda>(i, l). in_range s e l) (zip [0..<length ls] ls)"

definition range_result :: "date \<Rightarrow> date \<Rightarrow> line list \<Rightarrow> frame" where
  "range_result s e ls =
     \<lparr>columns = map Txt COLUMNS,
      index = map (\<lambda>(i, l). Pos i) (kept s e ls),
      rows = map (\<lambda>(i, l). loaded ls l) (kept s e ls)\<rparr>"







text \<open>The sum of the amounts of the rows of a category, of the rows of a category on a
  day, and of the expense rows with a description.\<close>

definition total_of :: "string \<Rightarrow> txn list \<Rightarrow> real" where
  "total_of c ts = sum_list (map t_amount (filter (\<lambda>t. t_category t = c) ts))"

definition day_total :: "string \<Rightarrow> date \<Rightarrow> txn list \<Rightarrow> real" where
  "day_total c d ts = sum_list (map t_amount (filter (\<lambda>t. t_category t = c \<and> t_date t = d) ts))"



text \<open>The table that \<^verbatim>\<open>plot_transactions\<close> leaves behind: the days have become the row
  labels and the three other columns remain.\<close>

definition indexed_frame :: "txn list \<Rightarrow> frame" where
  "indexed_frame ts =
     \<lparr>columns = [Txt ''amount'', Txt ''category'', Txt ''description''],
      index = map (\<lambda>t. Ts (t_date t)) ts,
      rows = map (\<lambda>t. tl (txn_cells t)) ts\<rparr>"

text \<open>The description of a retrieved transaction as a cell.\<close>

definition desc_cell :: "txn \<Rightarrow> cell" where
  "desc_cell t = (case t_description t of None \<Rightarrow> NaN | Some x \<Rightarrow> Str x)"

text \<open>A text that begins with two digits, as every written date does.\<close>

definition two_digits :: "string \<Rightarrow> bool" where
  "two_digits s = (case s of a # b # r \<Rightarrow> is_digit a \<and> is_digit b | _ \<Rightarrow> False)"

section \<open>Lemmas about dates and the file\<close>

subsection \<open>Dates\<close>

lemma digit_char_of_char: "n < 10 \<Longrightarrow> of_char (digit_char n) = 48 + n"
  by (simp add: digit_char_def)

lemma digit_char_not_dot: "n < 10 \<Longrightarrow> not_dot (digit_char n)"
proof -
  assume n: "n < 10"
  have "of_char (digit_char n) \<noteq> (of_char (CHR ''.'') :: nat)"
    using n by (simp add: digit_char_of_char)
  then show ?thesis unfolding not_dot_def by metis
qed

lemma digit_char_not_blank: "n < 10 \<Longrightarrow> digit_char n \<noteq> CHR '' ''"
proof -
  assume n: "n < 10"
  have "of_char (digit_char n) \<noteq> (of_char (CHR '' '') :: nat)"
    using n by (simp add: digit_char_of_char)
  then show ?thesis by metis
qed

lemma is_digit_digit_char: "n < 10 \<Longrightarrow> is_digit (digit_char n)"
  by (simp add: is_digit_def digit_char_of_char)

lemma digit_val_digit_char: "n < 10 \<Longrightarrow> digit_val (digit_char n) = n"
  by (simp add: digit_val_def digit_char_of_char)

lemma match_d_pad2: "1 \<le> d \<Longrightarrow> d \<le> 31 \<Longrightarrow> match_d (pad2 d) = Some d"
  by (simp add: pad2_def is_digit_digit_char digit_val_digit_char digit_char_not_blank)

lemma match_m_pad2: "1 \<le> m \<Longrightarrow> m \<le> 12 \<Longrightarrow> match_m (pad2 m) = Some m"
  by (simp add: pad2_def is_digit_digit_char digit_val_digit_char)

lemma four_digits:
  assumes "y \<le> 9999"
  shows "1000 * (y div 1000) + 100 * (y div 100 mod 10) + 10 * (y div 10 mod 10) + y mod 10 = (y::nat)"
proof -
  have a: "y = 10 * (y div 10) + y mod 10" by simp
  have b: "y div 10 = 10 * (y div 100) + y div 10 mod 10"
    using div_mult_mod_eq[of "y div 10" 10] by (simp add: div_mult2_eq[symmetric])
  have c: "y div 100 = 10 * (y div 1000) + y div 100 mod 10"
    using div_mult_mod_eq[of "y div 100" 10] by (simp add: div_mult2_eq[symmetric])
  show ?thesis using a b c by linarith
qed

lemma decimal_step: "10 \<le> n \<Longrightarrow> decimal n = decimal (n div 10) @ [digit_char (n mod 10)]"
  by (subst decimal.simps) simp

lemma decimal_digit: "n < 10 \<Longrightarrow> decimal n = [digit_char n]"
  by (subst decimal.simps) simp

lemma decimal_four:
  assumes "1000 \<le> y" and "y \<le> 9999"
  shows "decimal y = [digit_char (y div 1000), digit_char (y div 100 mod 10),
                      digit_char (y div 10 mod 10), digit_char (y mod 10)]"
proof -
  have a: "10 \<le> y" "10 \<le> y div 10" "10 \<le> y div 100" "y div 1000 < 10"
    using assms by simp_all
  have b: "y div 10 div 10 = y div 100" "y div 100 div 10 = y div 1000"
    by (simp_all add: div_mult2_eq[symmetric])
  have 1: "decimal y = decimal (y div 10) @ [digit_char (y mod 10)]"
    using a(1) by (rule decimal_step)
  have 2: "decimal (y div 10) = decimal (y div 100) @ [digit_char (y div 10 mod 10)]"
    using decimal_step[OF a(2)] by (simp only: b)
  have 3: "decimal (y div 100) = decimal (y div 1000) @ [digit_char (y div 100 mod 10)]"
    using decimal_step[OF a(3)] by (simp only: b)
  have 4: "decimal (y div 1000) = [digit_char (y div 1000)]"
    using a(4) by (rule decimal_digit)
  show ?thesis by (simp add: 1 2 3 4)
qed

lemma match_Y_decimal: "1000 \<le> y \<Longrightarrow> y \<le> 9999 \<Longrightarrow> match_Y (decimal y) = Some y"
  by (simp only: decimal_four match_Y.simps)
     (simp add: is_digit_digit_char digit_val_digit_char four_digits)

lemma days_in_month_le: "days_in_month y m \<le> 31"
  by (simp add: days_in_month_def)

lemma dot_is_dot: "\<not> not_dot (CHR ''.'')"
  by (simp add: not_dot_def)

lemma takeWhile_pad2: "takeWhile not_dot (pad2 n @ CHR ''.'' # r) = pad2 n"
  by (simp add: pad2_def digit_char_not_dot dot_is_dot)

lemma dropWhile_pad2: "dropWhile not_dot (pad2 n @ CHR ''.'' # r) = CHR ''.'' # r"
  by (simp add: pad2_def digit_char_not_dot dot_is_dot)

lemma strptime_strftime:
  assumes "valid_date dt" and "1000 \<le> fst dt"
  shows "strptime (strftime dt) = Some dt"
proof -
  obtain y m d where dt: "dt = (y, m, d)" by (cases dt) auto
  from assms dt have b: "1 \<le> d" "d \<le> 31" "1 \<le> m" "m \<le> 12" "y \<le> 9999" "1000 \<le> y"
    using days_in_month_le[of y m] by (auto simp: valid_date_def)
  have s: "strftime dt = pad2 d @ CHR ''.'' # (pad2 m @ CHR ''.'' # decimal y)"
    by (simp add: strftime_def dt)
  show ?thesis
    unfolding strptime_def s
    using assms b
    by (simp add: takeWhile_pad2 dropWhile_pad2 match_d_pad2 match_m_pad2 match_Y_decimal dt)
qed

lemma two_digits_strftime: "two_digits (strftime dt)"
  by (cases dt) (simp add: strftime_def pad2_def two_digits_def is_digit_digit_char)

lemma na_not_two_digits: "s \<in> set na_values \<Longrightarrow> \<not> two_digits s"
  by (auto simp: na_values_def two_digits_def is_digit_def)

lemma nat_not_two_digits: "s \<in> set nat_strings \<Longrightarrow> \<not> two_digits s"
  by (auto simp: nat_strings_def two_digits_def is_digit_def)

lemma strftime_not_na: "strftime dt \<notin> set na_values"
  using two_digits_strftime[of dt] na_not_two_digits by blast

lemma strftime_not_nat: "strftime dt \<notin> set nat_strings"
  using two_digits_strftime[of dt] nat_not_two_digits by blast



subsection \<open>Numerals\<close>

lemma all_dropWhile:
  assumes "\<forall>c\<in>set (dropWhile P s). Q c" and "\<And>c. P c \<Longrightarrow> Q c"
  shows "\<forall>c\<in>set s. Q c"
proof
  fix c assume "c \<in> set s"
  then have "c \<in> set (takeWhile P s) \<or> c \<in> set (dropWhile P s)"
    by (metis Un_iff set_append takeWhile_dropWhile_id)
  then show "Q c"
  proof
    assume "c \<in> set (takeWhile P s)"
    then have "P c" by (rule set_takeWhileD[THEN conjunct2])
    then show "Q c" by (rule assms(2))
  next
    assume "c \<in> set (dropWhile P s)"
    with assms(1) show "Q c" by blast
  qed
qed

lemma all_strip_sign:
  assumes "\<forall>c\<in>set (snd (strip_sign s)). Q c" and "Q (CHR ''+'')" and "Q (CHR ''-'')"
  shows "\<forall>c\<in>set s. Q c"
  using assms by (cases s) (auto simp: strip_sign_def split: if_splits)

lemma all_after_head:
  assumes "s \<noteq> []" and "Q (hd s)" and "\<forall>c\<in>set (tl s). Q c"
  shows "\<forall>c\<in>set s. Q c"
  using assms by (cases s) auto

lemma all_spaces: "dropWhile is_space s = [] \<Longrightarrow> \<forall>c\<in>set s. is_space c"
  by (simp add: dropWhile_eq_Nil_conv)

lemma count_dropWhile:
  assumes "\<And>x. P x \<Longrightarrow> x \<noteq> c"
  shows "count_list (dropWhile P s) c = count_list s c"
proof -
  have "count_list (takeWhile P s) c = 0"
    using assms by (auto simp: count_list_0_iff dest: set_takeWhileD)
  moreover have "count_list s c = count_list (takeWhile P s @ dropWhile P s) c" by simp
  ultimately show ?thesis by (simp del: takeWhile_dropWhile_id)
qed

lemma digit_not_dot: "is_digit c \<Longrightarrow> c \<noteq> CHR ''.''"
  by (auto simp: is_digit_def)

lemma space_not_dot: "is_space c \<Longrightarrow> c \<noteq> CHR ''.''"
  by (auto simp: is_space_def)

lemma count_strip_sign: "count_list (snd (strip_sign s)) (CHR ''.'') = count_list s (CHR ''.'')"
  by (cases s) (auto simp: strip_sign_def)

lemma count_after_head:
  "s \<noteq> [] \<Longrightarrow> count_list s c = (if hd s = c then 1 else 0) + count_list (tl s) c"
  by (cases s) auto

lemma numeral_rest:
  assumes "numeral s = Some x"
  shows "dropWhile is_space
          (let s3 = dropWhile is_digit (snd (strip_sign (dropWhile is_space s)));
               s4 = (if s3 \<noteq> [] \<and> hd s3 = CHR ''.'' then dropWhile is_digit (tl s3) else s3)
           in if s4 \<noteq> [] \<and> (hd s4 = CHR ''e'' \<or> hd s4 = CHR ''E'')
              then dropWhile is_digit (snd (strip_sign (tl s4))) else s4) = []"
proof (rule ccontr)
  assume "dropWhile is_space
          (let s3 = dropWhile is_digit (snd (strip_sign (dropWhile is_space s)));
               s4 = (if s3 \<noteq> [] \<and> hd s3 = CHR ''.'' then dropWhile is_digit (tl s3) else s3)
           in if s4 \<noteq> [] \<and> (hd s4 = CHR ''e'' \<or> hd s4 = CHR ''E'')
              then dropWhile is_digit (snd (strip_sign (tl s4))) else s4) \<noteq> []"
  then have "numeral s = None"
    unfolding numeral_def Let_def case_prod_unfold by simp
  with assms show False by simp
qed

lemma numeral_chars:
  assumes "numeral s = Some x"
  shows "\<forall>c\<in>set s. numeral_char c"
proof -
  define s1 where "s1 = dropWhile is_space s"
  define s2 where "s2 = snd (strip_sign s1)"
  define s3 where "s3 = dropWhile is_digit s2"
  define s4 where "s4 = (if s3 \<noteq> [] \<and> hd s3 = CHR ''.'' then dropWhile is_digit (tl s3) else s3)"
  define s6 where "s6 = dropWhile is_digit (snd (strip_sign (tl s4)))"
  define rest where "rest = (if s4 \<noteq> [] \<and> (hd s4 = CHR ''e'' \<or> hd s4 = CHR ''E'') then s6 else s4)"
  have "dropWhile is_space rest = []"
    unfolding rest_def s6_def s4_def s3_def s2_def s1_def
    by (rule numeral_rest[OF assms, unfolded Let_def])
  then have r: "\<forall>c\<in>set rest. numeral_char c"
    by (auto dest!: all_spaces simp: numeral_char_def)
  have c4: "\<forall>c\<in>set s4. numeral_char c"
  proof (cases "s4 \<noteq> [] \<and> (hd s4 = CHR ''e'' \<or> hd s4 = CHR ''E'')")
    case True
    with r have "\<forall>c\<in>set s6. numeral_char c" by (simp add: rest_def)
    then have "\<forall>c\<in>set (snd (strip_sign (tl s4))). numeral_char c"
      unfolding s6_def by (rule all_dropWhile) (simp add: numeral_char_def)
    then have t: "\<forall>c\<in>set (tl s4). numeral_char c"
      by (rule all_strip_sign) (simp_all add: numeral_char_def)
    from True have ne: "s4 \<noteq> []" and h: "numeral_char (hd s4)"
      by (auto simp: numeral_char_def)
    show ?thesis by (rule all_after_head[OF ne h t])
  next
    case False
    with r show ?thesis by (simp add: rest_def)
  qed
  have c3: "\<forall>c\<in>set s3. numeral_char c"
  proof (cases "s3 \<noteq> [] \<and> hd s3 = CHR ''.''")
    case True
    with c4 have "\<forall>c\<in>set (dropWhile is_digit (tl s3)). numeral_char c" by (simp add: s4_def)
    then have t: "\<forall>c\<in>set (tl s3). numeral_char c"
      by (rule all_dropWhile) (simp add: numeral_char_def)
    from True have ne: "s3 \<noteq> []" and h: "numeral_char (hd s3)"
      by (auto simp: numeral_char_def)
    show ?thesis by (rule all_after_head[OF ne h t])
  next
    case False
    with c4 show ?thesis by (simp add: s4_def)
  qed
  then have "\<forall>c\<in>set s2. numeral_char c"
    unfolding s3_def by (rule all_dropWhile) (simp add: numeral_char_def)
  then have "\<forall>c\<in>set s1. numeral_char c"
    unfolding s2_def by (rule all_strip_sign) (simp_all add: numeral_char_def)
  then show ?thesis
    unfolding s1_def by (rule all_dropWhile) (simp add: numeral_char_def)
qed

lemma numeral_one_dot:
  assumes "numeral s = Some x"
  shows "count_list s (CHR ''.'') \<le> 1"
proof -
  define s1 where "s1 = dropWhile is_space s"
  define s2 where "s2 = snd (strip_sign s1)"
  define s3 where "s3 = dropWhile is_digit s2"
  define s4 where "s4 = (if s3 \<noteq> [] \<and> hd s3 = CHR ''.'' then dropWhile is_digit (tl s3) else s3)"
  define s6 where "s6 = dropWhile is_digit (snd (strip_sign (tl s4)))"
  define rest where "rest = (if s4 \<noteq> [] \<and> (hd s4 = CHR ''e'' \<or> hd s4 = CHR ''E'') then s6 else s4)"
  have "dropWhile is_space rest = []"
    unfolding rest_def s6_def s4_def s3_def s2_def s1_def
    by (rule numeral_rest[OF assms, unfolded Let_def])
  then have "\<forall>c\<in>set rest. is_space c" by (rule all_spaces)
  then have r: "count_list rest (CHR ''.'') = 0"
    by (auto simp: count_list_0_iff dest: space_not_dot)
  have c4: "count_list s4 (CHR ''.'') = 0"
  proof (cases "s4 \<noteq> [] \<and> (hd s4 = CHR ''e'' \<or> hd s4 = CHR ''E'')")
    case True
    with r have "count_list s6 (CHR ''.'') = 0" by (simp add: rest_def)
    then have "count_list (tl s4) (CHR ''.'') = 0"
      by (simp add: s6_def count_dropWhile digit_not_dot count_strip_sign)
    with True show ?thesis
      using count_after_head[of s4 "CHR ''.''"] by auto
  next
    case False
    with r show ?thesis by (simp add: rest_def)
  qed
  have c3: "count_list s3 (CHR ''.'') \<le> 1"
  proof (cases "s3 \<noteq> [] \<and> hd s3 = CHR ''.''")
    case True
    with c4 have "count_list (tl s3) (CHR ''.'') = 0"
      by (simp add: s4_def count_dropWhile digit_not_dot)
    with True show ?thesis
      using count_after_head[of s3 "CHR ''.''"] by auto
  next
    case False
    with c4 show ?thesis by (simp add: s4_def)
  qed
  then show ?thesis
    by (simp add: s3_def s2_def s1_def count_dropWhile digit_not_dot space_not_dot count_strip_sign)
qed

lemma strptime_two_dots:
  assumes "strptime s = Some d"
  shows "2 \<le> count_list s (CHR ''.'')"
proof -
  from assms obtain c1 r1 where r1: "dropWhile not_dot s = c1 # r1"
    by (auto simp: strptime_def split: list.splits)
  from assms r1 obtain c2 r2 where r2: "dropWhile not_dot r1 = c2 # r2"
    by (auto simp: strptime_def split: list.splits)
  have d1: "c1 = CHR ''.''"
    using hd_dropWhile[of not_dot s] r1 by (simp add: not_dot_def)
  have d2: "c2 = CHR ''.''"
    using hd_dropWhile[of not_dot r1] r2 by (simp add: not_dot_def)
  have a: "s = takeWhile not_dot s @ CHR ''.'' # r1"
    using r1 d1 takeWhile_dropWhile_id[of not_dot s] by simp
  have b: "r1 = takeWhile not_dot r1 @ CHR ''.'' # r2"
    using r2 d2 takeWhile_dropWhile_id[of not_dot r1] by simp
  have "count_list s (CHR ''.'') = count_list (takeWhile not_dot s) (CHR ''.'') + 1 + count_list r1 (CHR ''.'')"
    by (subst a) simp
  moreover have "count_list r1 (CHR ''.'') = count_list (takeWhile not_dot r1) (CHR ''.'') + 1 + count_list r2 (CHR ''.'')"
    by (subst b) simp
  ultimately show ?thesis by simp
qed

lemma numeral_not_date: "numeral s = Some x \<Longrightarrow> strptime s = None"
  using numeral_one_dot[of s x] strptime_two_dots[of s]
  by (cases "strptime s") auto

lemma numeral_not_nat: "s \<in> set nat_strings \<Longrightarrow> numeral s = None"
  by (auto simp: nat_strings_def numeral_def strip_sign_def is_space_def is_digit_def)

lemma plain_not_numeral: "plain_text s \<Longrightarrow> numeral s = None"
  using numeral_chars[of s] by (cases "numeral s") (auto simp: plain_text_def)

lemma category_not_numeral: "numeral ''Income'' = None" "numeral ''Expense'' = None"
  by (simp_all add: numeral_def strip_sign_def is_space_def is_digit_def)

subsection \<open>Reading the file\<close>

lemma add_entries_Some: "add_entries es (Some f) = Some (f @ map entry_line es)"
  unfolding add_entries_def
  by (induction es arbitrary: f) (auto simp: add_entry_def entry_line_def)

lemma empty_is_na: "[] \<in> set na_values"
  by (simp add: na_values_def)

lemma date_field_reading:
  assumes "n \<longrightarrow> is_na (field1 l) \<or> numeric_field (field1 l) \<noteq> None"
  shows "to_datetime_cell (read_field n (field1 l)) =
           (if unreadable_date l then Inl ValueError
            else Inr (case row_day l of None \<Rightarrow> NaT | Some d \<Rightarrow> Ts d))"
proof (cases "fst l")
  case (Flt x)
  then show ?thesis
    by (simp add: read_field_def field1_def is_na_def numeric_field_def to_datetime_cell_def
          unreadable_date_def)
next
  case (Txt t)
  show ?thesis
  proof (cases "t \<in> set na_values")
    case True
    with Txt show ?thesis
      by (simp add: read_field_def field1_def is_na_def to_datetime_cell_def unreadable_date_def
            row_day_def)
  next
    case False
    show ?thesis
    proof (cases n)
      case True
      with assms Txt False obtain x where x: "numeral t = Some x"
        by (auto simp: field1_def is_na_def numeric_field_def)
      then have "strptime t = None" and "t \<notin> set nat_strings"
        using numeral_not_date[of t x] numeral_not_nat[of t] by auto
      with Txt False True x show ?thesis
        by (simp add: read_field_def field1_def is_na_def numeric_field_def to_datetime_cell_def
              unreadable_date_def)
    next
      case nn: False
      from False empty_is_na have "t \<noteq> []" by auto
      with Txt False nn show ?thesis
        by (simp add: read_field_def field1_def is_na_def to_datetime_cell_def unreadable_date_def
              row_day_def split: option.splits)
    qed
  qed
qed

lemma to_datetime_all:
  assumes "\<forall>l\<in>set ls. n \<longrightarrow> is_na (field1 l) \<or> numeric_field (field1 l) \<noteq> None"
    and "\<forall>l\<in>set ls. \<not> unreadable_date l"
  shows "to_datetime (map (\<lambda>l. read_field n (field1 l)) ls)
     = Inr (map (\<lambda>l. case row_day l of None \<Rightarrow> NaT | Some d \<Rightarrow> Ts d) ls)"
  using assms by (induction ls) (simp_all add: date_field_reading)

lemma to_datetime_some_bad:
  assumes "\<forall>l\<in>set ls. n \<longrightarrow> is_na (field1 l) \<or> numeric_field (field1 l) \<noteq> None"
    and "\<exists>l\<in>set ls. unreadable_date l"
  shows "to_datetime (map (\<lambda>l. read_field n (field1 l)) ls) = Inl ValueError"
  using assms
proof (induction ls)
  case Nil
  then show ?case by simp
next
  case (Cons l ls)
  show ?case
  proof (cases "unreadable_date l")
    case True
    with Cons.prems(1) show ?thesis by (simp add: date_field_reading)
  next
    case False
    with Cons.prems have "\<exists>l\<in>set ls. unreadable_date l" by auto
    with Cons.IH Cons.prems(1) False show ?thesis by (simp add: date_field_reading)
  qed
qed

lemma numeric_column_member:
  "\<forall>l\<in>set ls. numeric_column (map field1 ls)
       \<longrightarrow> is_na (field1 l) \<or> numeric_field (field1 l) \<noteq> None"
  by (auto simp: numeric_column_def)

lemma filter_zip_left:
  "length xs = length ys \<Longrightarrow>
   map snd (filter fst (zip (map p ys) (map f xs)))
     = map (\<lambda>(x, y). f x) (filter (\<lambda>(x, y). p y) (zip xs ys))"
  by (induction xs ys rule: list_induct2) auto

lemma filter_zip_right:
  "length xs = length ys \<Longrightarrow>
   map snd (filter fst (zip (map p ys) (map g ys)))
     = map (\<lambda>(x, y). g y) (filter (\<lambda>(x, y). p y) (zip xs ys))"
  by (induction xs ys rule: list_induct2) auto

lemma midnight_in_day:
  "(cell_ge (Ts d) (combine s min_time) \<and> cell_le (Ts d) (combine e max_time)) = (s \<le> d \<and> d \<le> e)"
  by (auto simp: cell_ge_def cell_le_def combine_def min_time_def max_time_def midnight_def)

lemma missing_out_of_range:
  "(cell_ge NaT t \<and> cell_le NaT t') = False"
  by (simp add: cell_ge_def)

lemma read_csv_ledger:
  "read_csv (Some (header_line # ls)) =
      Inr \<lparr>columns = map Txt COLUMNS, index = map Pos [0..<length ls], rows = typed_rows ls\<rparr>"
  by (simp add: read_csv_def header_line_def line_fields_def COLUMNS_def)

lemma getcol_date_ledger:
  "getcol ''date'' \<lparr>columns = map Txt COLUMNS, index = ix, rows = typed_rows ls\<rparr>
     = Inr (map (\<lambda>l. read_field (numeric_column (map field1 ls)) (field1 l)) ls)"
  by (simp add: getcol_def COLUMNS_def cell_at_def typed_rows_def)

lemma setcol_date_read:
  "setcol ''date'' (map (\<lambda>l. case row_day l of None \<Rightarrow> NaT | Some d \<Rightarrow> Ts d) ls)
      \<lparr>columns = map Txt COLUMNS, index = ix, rows = typed_rows ls\<rparr>
     = \<lparr>columns = map Txt COLUMNS, index = ix, rows = map (loaded ls) ls\<rparr>"
  by (simp add: setcol_def COLUMNS_def typed_rows_def zip_map1 zip_map2 zip_same_conv_map
        loaded_def)

lemma get_transactions_unreadable:
  assumes "\<exists>l\<in>set ls. unreadable_date l"
  shows "get_transactions s e (Some (header_line # ls)) = Inl ValueError"
  unfolding get_transactions_def read_csv_ledger
  by (simp add: getcol_date_ledger to_datetime_some_bad[OF numeric_column_member assms])

lemma get_transactions_ledger:
  assumes "\<forall>l\<in>set ls. \<not> unreadable_date l"
  shows "get_transactions s e (Some (header_line # ls)) = Inr (range_result s e ls)"
proof -
  let ?dates = "map (\<lambda>l. case row_day l of None \<Rightarrow> NaT | Some d \<Rightarrow> Ts d) ls"
  have msk: "map (\<lambda>c. cell_ge c (combine s min_time) \<and> cell_le c (combine e max_time)) ?dates
     = map (in_range s e) ls"
    by (auto simp: in_range_def midnight_in_day missing_out_of_range split: option.splits)
  show ?thesis
    unfolding get_transactions_def read_csv_ledger
    apply (simp add: getcol_date_ledger to_datetime_all[OF numeric_column_member assms] Let_def
        setcol_date_read del: map_map)
    apply (simp only: msk)
    apply (simp add: loc_def kept_def range_result_def filter_zip_left[of "[0..<length ls]" ls]
        filter_zip_right[of "[0..<length ls]" ls])
    done
qed

subsection \<open>Lines written by \<^verbatim>\<open>add_entry\<close>\<close>

lemma fields_entry_line:
  "field1 (entry_line e) = Txt (strftime (e_date e))"
  "field2 (entry_line e) = Flt (e_amount e)"
  "field3 (entry_line e) = Txt (e_category e)"
  "field4 (entry_line e) = Txt (e_description e)"
  by (cases e; simp add: entry_line_def new_entry_def field1_def field2_def field3_def field4_def
        e_date_def e_amount_def e_category_def e_description_def)+

lemma row_day_entry_line:
  "valid_date (e_date e) \<Longrightarrow> 1000 \<le> fst (e_date e) \<Longrightarrow> row_day (entry_line e) = Some (e_date e)"
  by (cases e)
     (simp add: row_day_def entry_line_def new_entry_def e_date_def strftime_not_na
        strftime_not_nat strptime_strftime)

lemma read_number:
  assumes "\<forall>l\<in>set ls. \<exists>x. f l = Flt x" and "f l = Flt a" 
  shows "read_field (numeric_column (map f ls)) (f l) = Num a"
proof -
  have "numeric_column (map f ls)"
    using assms(1) by (auto simp: numeric_column_def numeric_field_def)
  then show ?thesis
    using assms(2) by (simp add: read_field_def is_na_def numeric_field_def)
qed

lemma read_text:
  assumes "l \<in> set ls" and "f l = Txt c" and "c \<notin> set na_values" and "numeral c = None"
  shows "read_field (numeric_column (map f ls)) (f l) = Str c"
proof -
  have "\<not> numeric_column (map f ls)"
    using assms by (auto simp: numeric_column_def numeric_field_def is_na_def intro!: bexI[of _ l])
  then show ?thesis
    using assms by (simp add: read_field_def is_na_def)
qed

lemma read_description:
  assumes "text_column (map e_description es)" and "e \<in> set es"
  shows "read_field (numeric_column (map field4 (map entry_line es))) (Txt (e_description e))
           = (if e_description e \<in> set na_values then NaN else Str (e_description e))"
proof (cases "\<exists>d\<in>set (map e_description es). plain_text d")
  case True
  then obtain x where x: "x \<in> set es" "plain_text (e_description x)" by auto
  then have "numeral (e_description x) = None" "e_description x \<notin> set na_values"
    by (auto simp: plain_not_numeral plain_text_def)
  with x(1) have "\<not> numeric_column (map field4 (map entry_line es))"
    by (auto simp: numeric_column_def numeric_field_def is_na_def fields_entry_line
          intro!: bexI[of _ x])
  then show ?thesis by (simp add: read_field_def is_na_def)
next
  case False
  with assms have "e_description e \<in> set na_values" by (auto simp: text_column_def)
  then show ?thesis by (simp add: read_field_def is_na_def)
qed

lemma category_is_text:
  "c = ''Income'' \<or> c = ''Expense'' \<Longrightarrow> c \<notin> set na_values \<and> numeral c = None"
  by (auto simp: category_not_numeral na_values_def)

lemma loaded_entry_line:
  assumes "\<forall>e\<in>set es. valid_entry e" and "\<forall>e\<in>set es. within_timestamps (e_date e)"
    and "text_column (map e_description es)" and "e \<in> set es"
  shows "loaded (map entry_line es) (entry_line e) = txn_cells (retrieved e)"
proof -
  from assms have v: "valid_entry e" and y: "1000 \<le> fst (e_date e)"
    by (auto simp: within_timestamps_def)
  from v have d: "valid_date (e_date e)" and c: "e_category e = ''Income'' \<or> e_category e = ''Expense''"
    by (cases e; simp add: valid_entry_def e_date_def e_category_def)+
  have day: "row_day (entry_line e) = Some (e_date e)"
    using d y by (rule row_day_entry_line)
  have l: "entry_line e \<in> set (map entry_line es)" using assms(4) by simp
  have amount: "read_field (numeric_column (map field2 (map entry_line es))) (field2 (entry_line e))
      = Num (e_amount e)"
    by (rule read_number) (auto simp: fields_entry_line)
  have category: "read_field (numeric_column (map field3 (map entry_line es))) (field3 (entry_line e))
      = Str (e_category e)"
    using category_is_text[OF c] by (intro read_text[OF l]) (auto simp: fields_entry_line)
  have description: "read_field (numeric_column (map field4 (map entry_line es))) (field4 (entry_line e))
      = (if e_description e \<in> set na_values then NaN else Str (e_description e))"
    unfolding fields_entry_line by (rule read_description[OF assms(3,4)])
  have r: "txn_cells (retrieved e) = [Ts (e_date e), Num (e_amount e), Str (e_category e),
      if e_description e \<in> set na_values then NaN else Str (e_description e)]"
    by (cases e) (simp add: txn_cells_def retrieved_def e_date_def e_amount_def e_category_def
        e_description_def)
  show ?thesis
    unfolding loaded_def day amount category description r by simp
qed

lemma kept_all:
  assumes "\<forall>l\<in>set ls. in_range s e l"
  shows "kept s e ls = zip [0..<length ls] ls"
  unfolding kept_def using assms by (auto simp: filter_id_conv dest: set_zip_rightD)

lemma map_zip_fst: "length xs = length ys \<Longrightarrow> map (\<lambda>(x, y). f x) (zip xs ys) = map f xs"
  by (induction xs ys rule: list_induct2) auto

lemma map_zip_snd: "length xs = length ys \<Longrightarrow> map (\<lambda>(x, y). g y) (zip xs ys) = map g ys"
  by (induction xs ys rule: list_induct2) auto

lemma unreadable_no_day: "unreadable_date l \<Longrightarrow> row_day l = None"
  by (cases "fst l") (simp_all add: unreadable_date_def row_day_def)

lemma range_result_all:
  assumes "\<forall>l\<in>set ls. in_range s e l"
  shows "range_result s e ls =
     \<lparr>columns = map Txt COLUMNS, index = map Pos [0..<length ls], rows = map (loaded ls) ls\<rparr>"
  by (simp add: range_result_def kept_all[OF assms] map_zip_fst map_zip_snd)

lemma undescribed_expense_read:
  "get_transactions (2024, 3, 1) (2024, 3, 31)
        (add_entries [((2024, 3, 5), 50, ''Expense'', [])] (fst (initialize_csv None)))
       = Inr \<lparr>columns = [Txt ''date'', Txt ''amount'', Txt ''category'', Txt ''description''],
              index = [Pos 0],
              rows = [[Ts (2024, 3, 5), Num 50, Str ''Expense'', NaN]]\<rparr>"
proof -
  have fs: "add_entries [e] (fst (initialize_csv None)) = Some (header_line # [entry_line e])" for e
    by (simp add: initialize_csv_def read_csv_def add_entries_Some)
  have d: "row_day (entry_line ((2024, 3, 5), 50, ''Expense'', [])) = Some (2024, 3, 5)"
    using row_day_entry_line[of "((2024, 3, 5), 50, ''Expense'', [])"]
    by (simp add: e_date_def valid_date_def days_in_month_def is_leap_def)
  have ok: "\<forall>l\<in>set [entry_line ((2024, 3, 5), 50, ''Expense'', [])]. \<not> unreadable_date l"
    using d by (auto dest: unreadable_no_day)
  show ?thesis
    unfolding fs get_transactions_ledger[OF ok]
    by (simp add: d range_result_def kept_def in_range_def loaded_def fields_entry_line
          e_amount_def e_category_def e_description_def read_field_def numeric_column_def
          numeric_field_def is_na_def category_not_numeral na_values_def COLUMNS_def)
qed

section \<open>Append and retrieve\<close>

text \<open>
  C1 (as amended). Valid transactions, dated within the timestamps of the reader (in the
  years 1678 to 2261), are appended one after the other to a file that
  \<^verbatim>\<open>initialize_csv\<close> has just created, and then retrieved over a range that covers all
  their days. When their descriptions make a column of text (one of them at least holds
  a character that no numeral has and is neither a marker of a missing value nor a word
  for a boolean or for infinity, or all of them are markers of a missing value), the
  result holds exactly those transactions, in the order in which they were appended,
  numbered from 0, each with its day, its amount and its category; the description comes
  back as the text that was entered unless that text is one the reader takes for a
  missing value (the empty text is one), in which case it comes back as missing.
\<close>

theorem round_trip:
  assumes "\<forall>e\<in>set es. valid_entry e"
    and "\<forall>e\<in>set es. within_timestamps (e_date e)"
    and "text_column (map e_description es)"
    and "\<forall>e\<in>set es. s \<le> e_date e \<and> e_date e \<le> e'"
  shows "get_transactions s e' (add_entries es (fst (initialize_csv None)))
         = Inr (ledger_frame (map Pos [0..<length es]) (map retrieved es))"
proof -
  have fs: "add_entries es (fst (initialize_csv None)) = Some (header_line # map entry_line es)"
    by (simp add: initialize_csv_def read_csv_def add_entries_Some)
  have day: "row_day (entry_line e) = Some (e_date e)" if "e \<in> set es" for e
    using that assms(1,2)
    by (intro row_day_entry_line) (auto simp: valid_entry_def e_date_def within_timestamps_def)
  have ok: "\<forall>l\<in>set (map entry_line es). \<not> unreadable_date l"
  proof
    fix l assume "l \<in> set (map entry_line es)"
    then obtain e where "e \<in> set es" "l = entry_line e" by auto
    with day[of e] show "\<not> unreadable_date l" by (auto dest: unreadable_no_day)
  qed
  have inr: "\<forall>l\<in>set (map entry_line es). in_range s e' l"
    using day assms(4) by (auto simp: in_range_def)
  have rows: "map (loaded (map entry_line es)) (map entry_line es) = map txn_cells (map retrieved es)"
    using loaded_entry_line[OF assms(1,2,3)] by simp
  show ?thesis
    unfolding fs get_transactions_ledger[OF ok] range_result_all[OF inr] ledger_frame_def
    using rows by simp
qed

text \<open>The three transactions of the end-to-end scenario, the last one entered without a
  description.\<close>

theorem round_trip_witness:
  "valid_entry ((2024, 3, 1), 500, ''Income'', ''Salary'')
   \<and> valid_entry ((2024, 3, 5), 50, ''Expense'', ''Groceries'')
   \<and> valid_entry ((2024, 4, 10), 20, ''Expense'', '''')
   \<and> within_timestamps (2024, 3, 1) \<and> within_timestamps (2024, 3, 5)
   \<and> within_timestamps (2024, 4, 10)
   \<and> text_column [''Salary'', ''Groceries'', '''']
   \<and> (2024, 3, 1) \<le> e_date ((2024, 3, 1), 500, ''Income'', ''Salary'')
   \<and> e_date ((2024, 4, 10), 20, ''Expense'', '''') \<le> (2024, 4, 30)
   \<and> get_transactions (2024, 3, 1) (2024, 4, 30)
        (add_entries [((2024, 3, 1), 500, ''Income'', ''Salary''), ((2024, 3, 5), 50, ''Expense'', ''Groceries''),
               ((2024, 4, 10), 20, ''Expense'', '''')] (fst (initialize_csv None)))
       = Inr \<lparr>columns = [Txt ''date'', Txt ''amount'', Txt ''category'', Txt ''description''],
              index = [Pos 0, Pos 1, Pos 2],
              rows = [[Ts (2024, 3, 1), Num 500, Str ''Income'', Str ''Salary''],
                      [Ts (2024, 3, 5), Num 50, Str ''Expense'', Str ''Groceries''],
                      [Ts (2024, 4, 10), Num 20, Str ''Expense'', NaN]]\<rparr>"
proof -
  have tc: "text_column [''Salary'', ''Groceries'', '''']"
    by (simp add: text_column_def plain_text_def na_values_def special_words_def strip_def
        is_space_def to_lower_def numeral_char_def is_digit_def)
  show ?thesis
    using tc round_trip [of "[((2024, 3, 1), 500, ''Income'', ''Salary''), ((2024, 3, 5), 50, ''Expense'', ''Groceries''),
               ((2024, 4, 10), 20, ''Expense'', '''')]" "(2024, 3, 1)" "(2024, 4, 30)"]
    by (simp add: valid_entry_def valid_date_def days_in_month_def is_leap_def e_date_def
        e_description_def within_timestamps_def
        ledger_frame_def retrieved_def txn_cells_def COLUMNS_def na_values_def upt_rec)
qed

text \<open>C1 as it is stated fails for a valid transaction whose description is empty: the
  description comes back as a missing value, not as the empty text. It fails for a valid
  transaction described \<^verbatim>\<open>007\<close>: the descriptions are then a column of numbers and
  the description comes back as the number 7. It fails for a valid transaction of the
  year 999: the year is written with three digits, which the fixed format does not
  read, and the retrieval raises.\<close>

theorem round_trip_counterexample:
  "valid_entry ((2024, 3, 5), 50, ''Expense'', '''')
   \<and> get_transactions (2024, 3, 1) (2024, 3, 31)
        (add_entries [((2024, 3, 5), 50, ''Expense'', '''')] (fst (initialize_csv None)))
       = Inr \<lparr>columns = [Txt ''date'', Txt ''amount'', Txt ''category'', Txt ''description''],
              index = [Pos 0],
              rows = [[Ts (2024, 3, 5), Num 50, Str ''Expense'', NaN]]\<rparr>
   \<and> valid_entry ((2024, 3, 5), 50, ''Expense'', ''007'')
   \<and> get_transactions (2024, 3, 1) (2024, 3, 31)
        (add_entries [((2024, 3, 5), 50, ''Expense'', ''007'')] (fst (initialize_csv None)))
       = Inr \<lparr>columns = [Txt ''date'', Txt ''amount'', Txt ''category'', Txt ''description''],
              index = [Pos 0],
              rows = [[Ts (2024, 3, 5), Num 50, Str ''Expense'', Num 7]]\<rparr>
   \<and> valid_entry ((999, 1, 5), 50, ''Expense'', ''Taxes'')
   \<and> get_transactions (1, 1, 1) (9999, 12, 31)
        (add_entries [((999, 1, 5), 50, ''Expense'', ''Taxes'')] (fst (initialize_csv None)))
       = Inl ValueError"
proof -
  have v: "valid_entry ((2024, 3, 5), 50, ''Expense'', t)" for t
    by (simp add: valid_entry_def valid_date_def days_in_month_def is_leap_def)
  have fs: "add_entries [e] (fst (initialize_csv None)) = Some (header_line # [entry_line e])" for e
    by (simp add: initialize_csv_def read_csv_def add_entries_Some)
  have d: "row_day (entry_line ((2024, 3, 5), 50, ''Expense'', t)) = Some (2024, 3, 5)" for t
    using row_day_entry_line[of "((2024, 3, 5), 50, ''Expense'', t)"]
    by (simp add: e_date_def valid_date_def days_in_month_def is_leap_def)
  have ok: "\<forall>l\<in>set [entry_line ((2024, 3, 5), 50, ''Expense'', t)]. \<not> unreadable_date l" for t
    using d[of t] by (auto dest: unreadable_no_day)
  have n7: "numeral ''007'' = Some 7"
    by (simp add: numeral_def strip_sign_def is_space_def is_digit_def digits_value_def
          digit_val_def Let_def)
  have a: "get_transactions (2024, 3, 1) (2024, 3, 31)
        (add_entries [((2024, 3, 5), 50, ''Expense'', '''')] (fst (initialize_csv None)))
       = Inr \<lparr>columns = [Txt ''date'', Txt ''amount'', Txt ''category'', Txt ''description''],
              index = [Pos 0],
              rows = [[Ts (2024, 3, 5), Num 50, Str ''Expense'', NaN]]\<rparr>"
    by (rule undescribed_expense_read)
  have b: "get_transactions (2024, 3, 1) (2024, 3, 31)
        (add_entries [((2024, 3, 5), 50, ''Expense'', ''007'')] (fst (initialize_csv None)))
       = Inr \<lparr>columns = [Txt ''date'', Txt ''amount'', Txt ''category'', Txt ''description''],
              index = [Pos 0],
              rows = [[Ts (2024, 3, 5), Num 50, Str ''Expense'', Num 7]]\<rparr>"
    unfolding fs get_transactions_ledger[OF ok]
    by (simp add: d range_result_def kept_def in_range_def loaded_def fields_entry_line
          e_amount_def e_category_def e_description_def read_field_def numeric_column_def
          numeric_field_def is_na_def category_not_numeral n7 na_values_def COLUMNS_def)
  have v9: "valid_entry ((999, 1, 5), 50, ''Expense'', ''Taxes'')"
    by (simp add: valid_entry_def valid_date_def days_in_month_def is_leap_def)
  have w: "strftime (999, 1, 5) = ''05.01.999''" by code_simp
  have p: "strptime ''05.01.999'' = None" by code_simp
  have l: "entry_line ((999, 1, 5), 50, ''Expense'', ''Taxes'')
      = (Txt ''05.01.999'', Flt 50, Txt ''Expense'', Txt ''Taxes'')"
    by (simp add: entry_line_def new_entry_def w del: One_nat_def)
  have u: "\<exists>l\<in>set [entry_line ((999, 1, 5), 50, ''Expense'', ''Taxes'')]. unreadable_date l"
    unfolding l by (simp add: unreadable_date_def p na_values_def nat_strings_def)
  have c: "get_transactions (1, 1, 1) (9999, 12, 31)
        (add_entries [((999, 1, 5), 50, ''Expense'', ''Taxes'')] (fst (initialize_csv None)))
       = Inl ValueError"
    unfolding fs by (rule get_transactions_unreadable[OF u])
  show ?thesis by (intro conjI v a b v9 c)
qed


section \<open>Retrieval by range\<close>




section \<open>Lines whose date cannot be read\<close>






section \<open>Initialization\<close>

text \<open>
  C6 (as amended). When the file is absent, \<^verbatim>\<open>initialize_csv\<close> creates it with the header
  line and nothing else. It never changes a file that exists, and for an existing file
  with at least one line it raises nothing, whatever the lines hold. Calling it twice
  leaves the file as calling it once does, and the call after the one that created the
  file raises nothing.
\<close>

theorem initialize_csv_idempotent:
  "initialize_csv None = (Some [header_line], Inr ())
   \<and> fst (initialize_csv (Some f)) = Some f
   \<and> (f \<noteq> [] \<longrightarrow> initialize_csv (Some f) = (Some f, Inr ()))
   \<and> fst (initialize_csv (fst (initialize_csv fs))) = fst (initialize_csv fs)
   \<and> initialize_csv (fst (initialize_csv None)) = (fst (initialize_csv None), Inr ())"
proof -
  have n: "initialize_csv None = (Some [header_line], Inr ())"
    by (simp add: initialize_csv_def read_csv_def)
  have s: "initialize_csv (Some g) = (Some g, if g = [] then Inl EmptyDataError else Inr ())" for g
    by (cases g) (simp_all add: initialize_csv_def read_csv_def)
  have "fst (initialize_csv (fst (initialize_csv fs))) = fst (initialize_csv fs)"
    by (cases fs) (simp_all add: n s)
  then show ?thesis by (simp add: n s)
qed

text \<open>An existing ledger is left as it is, and so is the file the first call created.\<close>

theorem initialize_csv_idempotent_witness:
  "[header_line, (Txt ''01.03.2024'', Flt 500, Txt ''Income'', Txt ''Salary'')] \<noteq> []
   \<and> initialize_csv (Some [header_line, (Txt ''01.03.2024'', Flt 500, Txt ''Income'', Txt ''Salary'')])
      = (Some [header_line, (Txt ''01.03.2024'', Flt 500, Txt ''Income'', Txt ''Salary'')], Inr ())
   \<and> initialize_csv None = (Some [header_line], Inr ())
   \<and> fst (initialize_csv (fst (initialize_csv None))) = fst (initialize_csv None)"
proof -
  note t = initialize_csv_idempotent
    [of "[header_line, (Txt ''01.03.2024'', Flt 500, Txt ''Income'', Txt ''Salary'')]" None]
  have a: "[header_line, (Txt ''01.03.2024'', Flt 500, Txt ''Income'', Txt ''Salary'')] \<noteq> []"
    by simp
  have b: "initialize_csv (Some [header_line, (Txt ''01.03.2024'', Flt 500, Txt ''Income'', Txt ''Salary'')])
      = (Some [header_line, (Txt ''01.03.2024'', Flt 500, Txt ''Income'', Txt ''Salary'')], Inr ())"
    using t a by blast
  have c: "initialize_csv None = (Some [header_line], Inr ())"
    using t by blast
  have d: "fst (initialize_csv (fst (initialize_csv None))) = fst (initialize_csv None)"
    using t by blast
  show ?thesis by (intro conjI a b c d)
qed

text \<open>C6 as it is stated fails for an existing file without any line: the read that
  \<^verbatim>\<open>initialize_csv\<close> uses to find out whether the file is there raises
  \<^verbatim>\<open>EmptyDataError\<close>, which is not caught. The file stays as it is.\<close>

theorem initialize_csv_counterexample:
  "initialize_csv (Some []) = (Some [], Inl EmptyDataError)"
  by (simp add: initialize_csv_def read_csv_def)

section \<open>Appending without a file\<close>















section \<open>The summary\<close>

lemma filter_zip_same:
  "map snd (filter fst (zip (map p xs) (map g xs))) = map g (filter p xs)"
  by (induction xs) auto

lemma position_columns:
  "position (Txt ''date'') (map Txt COLUMNS) = Some 0"
  "position (Txt ''amount'') (map Txt COLUMNS) = Some 1"
  "position (Txt ''category'') (map Txt COLUMNS) = Some 2"
  "position (Txt ''description'') (map Txt COLUMNS) = Some 3"
  by (simp_all add: COLUMNS_def)


lemma txn_cells_at:
  "cell_at (txn_cells t) 0 = Ts (t_date t)"
  "cell_at (txn_cells t) (Suc 0) = Num (t_amount t)"
  "cell_at (txn_cells t) 2 = Str (t_category t)"
  "cell_at (txn_cells t) 3 = desc_cell t"
  by (cases t; simp add: cell_at_def txn_cells_def t_date_def t_amount_def t_category_def
        t_description_def desc_cell_def)+

lemma getcol_ledger:
  "getcol ''date'' (ledger_frame idx ts) = Inr (map (\<lambda>t. Ts (t_date t)) ts)"
  "getcol ''amount'' (ledger_frame idx ts) = Inr (map (\<lambda>t. Num (t_amount t)) ts)"
  "getcol ''category'' (ledger_frame idx ts) = Inr (map (\<lambda>t. Str (t_category t)) ts)"
  "getcol ''description'' (ledger_frame idx ts) = Inr (map desc_cell ts)"
  by (simp_all add: getcol_def ledger_frame_def position_columns txn_cells_at)

lemma loc_ledger:
  "loc (map p ts) (ledger_frame idx ts)
     = ledger_frame (map snd (filter fst (zip (map p ts) idx))) (filter p ts)"
  by (simp add: loc_def ledger_frame_def filter_zip_same)

lemma of_category_ledger:
  "of_category c (ledger_frame idx ts)
     = Inr (ledger_frame (map snd (filter fst (zip (map (\<lambda>t. t_category t = c) ts) idx)))
              (filter (\<lambda>t. t_category t = c) ts))"
  using loc_ledger[of "\<lambda>t. t_category t = c" ts idx]
  by (simp add: of_category_def getcol_ledger comp_def)

lemma numeric_values_Num: "numeric_values (map (\<lambda>t. Num (f t)) ts) = Inr (map f ts)"
  by (induction ts) simp_all

lemma category_total_ledger: "category_total c (ledger_frame idx ts) = Inr (total_of c ts)"
  by (simp add: category_total_def of_category_ledger getcol_ledger series_sum_def
        numeric_values_Num total_of_def)

text \<open>
  C4. For every retrieved set of transactions, the summary is the sum of the amounts of
  the rows of category Income, the sum of the amounts of the rows of category Expense,
  and the first minus the second. The empty set gives (0, 0, 0), and one Income row of
  100 with one Expense row of 40 gives (100, 40, 60).
\<close>

theorem summarize_totals:
  "summarize (ledger_frame idx ts)
     = Inr (total_of ''Income'' ts, total_of ''Expense'' ts,
            total_of ''Income'' ts - total_of ''Expense'' ts)
   \<and> summarize (ledger_frame [] []) = Inr (0, 0, 0)
   \<and> summarize (ledger_frame [Pos 0, Pos 1]
                  [((2024, 3, 1), 100, ''Income'', Some ''Salary''),
                   ((2024, 3, 5), 40, ''Expense'', Some ''Groceries'')]) = Inr (100, 40, 60)"
  by (simp add: summarize_def category_total_ledger total_of_def t_category_def t_amount_def)

text \<open>The March rows of the end-to-end scenario.\<close>

theorem summarize_totals_witness:
  "summarize (ledger_frame [Pos 0, Pos 1]
                  [((2024, 3, 1), 500, ''Income'', Some ''Salary''),
                   ((2024, 3, 5), 50, ''Expense'', Some ''Groceries'')]) = Inr (500, 50, 450)"
  using summarize_totals [of "[Pos 0, Pos 1]" "[((2024, 3, 1), 500, ''Income'', Some ''Salary''),
                   ((2024, 3, 5), 50, ''Expense'', Some ''Groceries'')]"]
  by (simp add: total_of_def t_category_def t_amount_def)

section \<open>The expense analysis\<close>

lemma is_empty_ledger: "is_empty (ledger_frame idx ts) = (ts = [])"
  by (simp add: is_empty_def ledger_frame_def COLUMNS_def)



lemma zip_columns:
  "zip (map f ts) (map g ts) = map (\<lambda>t. (f t, g t)) ts"
  by (induction ts) auto















section \<open>The plot over time\<close>

lemma to_datetime_Ts: "to_datetime (map (\<lambda>t. Ts (f t)) ts) = Inr (map (\<lambda>t. Ts (f t)) ts)"
  by (induction ts) (simp_all add: to_datetime_cell_def)

lemma txn_cells_date: "(txn_cells t)[0 := Ts (t_date t)] = txn_cells t"
  by (cases t) (simp add: txn_cells_def t_date_def)

lemma setcol_date_ledger:
  "setcol ''date'' (map (\<lambda>t. Ts (t_date t)) ts) (ledger_frame idx ts) = ledger_frame idx ts"
  by (simp add: setcol_def ledger_frame_def position_columns zip_columns txn_cells_date comp_def)

lemma remove_first: "remove_at 0 xs = tl xs"
  by (cases xs) (simp_all add: remove_at_def)

lemma set_index_ledger: "set_index ''date'' (ledger_frame idx ts) = Inr (indexed_frame ts)"
  by (simp add: set_index_def ledger_frame_def position_columns indexed_frame_def remove_first
        txn_cells_at COLUMNS_def comp_def)

lemma tl_txn_cells_at:
  "cell_at (tl (txn_cells t)) 0 = Num (t_amount t)"
  "cell_at (tl (txn_cells t)) (Suc 0) = Str (t_category t)"
  by (cases t; simp add: cell_at_def txn_cells_def t_amount_def t_category_def)+

lemma getcol_indexed:
  "getcol ''amount'' (indexed_frame ts) = Inr (map (\<lambda>t. Num (t_amount t)) ts)"
  "getcol ''category'' (indexed_frame ts) = Inr (map (\<lambda>t. Str (t_category t)) ts)"
  "getcol ''date'' (indexed_frame ts) = Inl (KeyError ''date'')"
  by (simp_all add: getcol_def indexed_frame_def tl_txn_cells_at)

lemma loc_indexed: "loc (map p ts) (indexed_frame ts) = indexed_frame (filter p ts)"
  by (simp add: loc_def indexed_frame_def filter_zip_same)

lemma of_category_indexed:
  "of_category c (indexed_frame ts) = Inr (indexed_frame (filter (\<lambda>t. t_category t = c) ts))"
  using loc_indexed[of "\<lambda>t. t_category t = c" ts]
  by (simp add: of_category_def getcol_indexed comp_def)

lemma days_of_Ts: "days_of (map (\<lambda>t. Ts (f t)) ts) = map f ts"
  by (induction ts) simp_all

lemma sum_on_day:
  "sum_list (map snd (filter (\<lambda>(l, x). l = Ts d) (zip (map (\<lambda>t. Ts (t_date t)) ts) (map t_amount ts))))
     = sum_list (map t_amount (filter (\<lambda>t. t_date t = d) ts))"
  by (induction ts) auto

lemma resample_sum_indexed:
  "resample_sum (index (indexed_frame ts)) (map (\<lambda>t. Num (t_amount t)) ts)
     = Inr (\<lambda>d. if ts \<noteq> [] \<and> Min (set (map t_date ts)) \<le> d \<and> d \<le> Max (set (map t_date ts))
                then Some (sum_list (map t_amount (filter (\<lambda>t. t_date t = d) ts)))
                else None)"
  by (simp add: resample_sum_def indexed_frame_def numeric_values_Num days_of_Ts sum_on_day
        cong: if_cong)

lemma no_row_no_sum:
  "\<forall>t\<in>set ts. t_date t \<noteq> d \<Longrightarrow> sum_list (map t_amount (filter (\<lambda>t. t_date t = d) ts)) = 0"
  by (induction ts) auto

lemma day_within:
  assumes "t \<in> set ts"
  shows "Min (set (map t_date ts)) \<le> t_date t \<and> t_date t \<le> Max (set (map t_date ts))"
  using assms by (auto intro: Min_le Max_ge)

lemma reindexed_value:
  "(case (if ts \<noteq> [] \<and> Min (set (map t_date ts)) \<le> d \<and> d \<le> Max (set (map t_date ts))
          then Some (sum_list (map t_amount (filter (\<lambda>t. t_date t = d) ts)))
          else None) of None \<Rightarrow> 0 | Some v \<Rightarrow> v)
   = sum_list (map t_amount (filter (\<lambda>t. t_date t = d) ts))"
proof (cases "\<exists>t\<in>set ts. t_date t = d")
  case True
  then obtain t where t: "t \<in> set ts" "t_date t = d" by blast
  then have "ts \<noteq> []" by auto
  with day_within[OF t(1)] t(2) show ?thesis by simp
next
  case False
  then have "sum_list (map t_amount (filter (\<lambda>t. t_date t = d) ts)) = 0"
    by (intro no_row_no_sum) blast
  then show ?thesis by simp
qed

lemma day_total_filter:
  "sum_list (map t_amount (filter (\<lambda>t. t_date t = d) (filter (\<lambda>t. t_category t = c) ts)))
     = day_total c d ts"
  by (simp add: day_total_def conj_commute)

lemma daily_indexed:
  "daily c (indexed_frame ts) = Inr (map (\<lambda>t. (Ts (t_date t), day_total c (t_date t) ts)) ts)"
proof -
  let ?sel = "filter (\<lambda>t. t_category t = c) ts"
  have r: "reindex (index (indexed_frame ts)) 0
            (\<lambda>d. if ?sel \<noteq> [] \<and> Min (set (map t_date ?sel)) \<le> d \<and> d \<le> Max (set (map t_date ?sel))
                  then Some (sum_list (map t_amount (filter (\<lambda>t. t_date t = d) ?sel)))
                  else None)
           = map (\<lambda>t. (Ts (t_date t), day_total c (t_date t) ts)) ts"
    unfolding reindex_def indexed_frame_def
    by (simp only: frame.simps list.map_comp comp_def cell.case reindexed_value)
       (simp only: day_total_filter)
  show ?thesis
    unfolding daily_def of_category_indexed
    by (simp only: sum.case getcol_indexed resample_sum_indexed r)
qed

lemma plot_transactions_ledger:
  "plot_transactions (ledger_frame idx ts) =
     (if ts = [] then (ledger_frame idx ts, Inr No_chart)
      else (indexed_frame ts,
            Inr (Lines (map (\<lambda>t. (Ts (t_date t), day_total ''Income'' (t_date t) ts)) ts)
                       (map (\<lambda>t. (Ts (t_date t), day_total ''Expense'' (t_date t) ts)) ts))))"
  by (simp add: plot_transactions_def is_empty_ledger getcol_ledger to_datetime_Ts
        setcol_date_ledger set_index_ledger daily_indexed)

lemma day_total_none:
  "filter (\<lambda>t. t_category t = c \<and> t_date t = d) ts = [] \<Longrightarrow> day_total c d ts = 0"
  by (simp add: day_total_def)

text \<open>
  C7 (as amended). For every non-empty retrieved set of transactions,
  \<^verbatim>\<open>plot_transactions\<close> draws two lines of points, one for Income and one for Expense,
  over the same axis. The axis is the sequence of the days of the rows, one point for
  each row in the order of the rows (a day with several rows is there several times, and
  the days are in the order of the rows, not sorted). The value at a point is the sum of
  the amounts of the rows of that category on that day, which is zero when the category
  has no row on that day. For the empty set nothing is drawn.
\<close>

theorem time_series:
  "snd (plot_transactions (ledger_frame idx ts)) =
     Inr (if ts = [] then No_chart
          else Lines (map (\<lambda>t. (Ts (t_date t), day_total ''Income'' (t_date t) ts)) ts)
                     (map (\<lambda>t. (Ts (t_date t), day_total ''Expense'' (t_date t) ts)) ts))
   \<and> map fst (map (\<lambda>t. (Ts (t_date t), day_total ''Income'' (t_date t) ts)) ts)
       = map (\<lambda>t. Ts (t_date t)) ts
   \<and> map fst (map (\<lambda>t. (Ts (t_date t), day_total ''Expense'' (t_date t) ts)) ts)
       = map (\<lambda>t. Ts (t_date t)) ts
   \<and> (filter (\<lambda>t. t_category t = c \<and> t_date t = d) ts = [] \<longrightarrow> day_total c d ts = 0)"
  by (simp add: plot_transactions_ledger day_total_none comp_def)

text \<open>The March rows of the end-to-end scenario: the income of the first day and the
  expense of the second, each zero on the other day.\<close>

theorem time_series_witness:
  "filter (\<lambda>t. t_category t = ''Expense'' \<and> t_date t = (2024, 3, 1))
      [((2024, 3, 1), 500, ''Income'', Some ''Salary''),
       ((2024, 3, 5), 50, ''Expense'', Some ''Groceries'')] = []
   \<and> snd (plot_transactions (ledger_frame [Pos 0, Pos 1]
        [((2024, 3, 1), 500, ''Income'', Some ''Salary''),
         ((2024, 3, 5), 50, ''Expense'', Some ''Groceries'')]))
      = Inr (Lines [(Ts (2024, 3, 1), 500), (Ts (2024, 3, 5), 0)]
                   [(Ts (2024, 3, 1), 0), (Ts (2024, 3, 5), 50)])"
proof -
  note t = time_series [of "[Pos 0, Pos 1]"
        "[((2024, 3, 1), 500, ''Income'', Some ''Salary''),
          ((2024, 3, 5), 50, ''Expense'', Some ''Groceries'')]" "''Expense''" "(2024, 3, 1)"]
  have a: "filter (\<lambda>t. t_category t = ''Expense'' \<and> t_date t = (2024, 3, 1))
      [((2024, 3, 1), 500, ''Income'', Some ''Salary''),
       ((2024, 3, 5), 50, ''Expense'', Some ''Groceries'')] = []"
    by (simp add: t_category_def t_date_def)
  have b: "snd (plot_transactions (ledger_frame [Pos 0, Pos 1]
        [((2024, 3, 1), 500, ''Income'', Some ''Salary''),
         ((2024, 3, 5), 50, ''Expense'', Some ''Groceries'')]))
      = Inr (Lines [(Ts (2024, 3, 1), 500), (Ts (2024, 3, 5), 0)]
                   [(Ts (2024, 3, 1), 0), (Ts (2024, 3, 5), 50)])"
    using t by (simp add: day_total_def t_category_def t_date_def t_amount_def)
  show ?thesis by (intro conjI a b)
qed

text \<open>C7 as it is stated fails for rows that are not in the order of their days, or that
  share a day: the axis has the day of every row, here 5 March, 1 March and 5 March
  again, and is neither sorted nor free of repetitions.\<close>

theorem time_series_counterexample:
  "snd (plot_transactions (ledger_frame [Pos 0, Pos 1, Pos 2]
        [((2024, 3, 5), 50, ''Expense'', Some ''Groceries''),
         ((2024, 3, 1), 500, ''Income'', Some ''Salary''),
         ((2024, 3, 5), 20, ''Expense'', Some ''Transport'')]))
      = Inr (Lines [(Ts (2024, 3, 5), 0), (Ts (2024, 3, 1), 500), (Ts (2024, 3, 5), 0)]
                   [(Ts (2024, 3, 5), 70), (Ts (2024, 3, 1), 0), (Ts (2024, 3, 5), 70)])
   \<and> \<not> distinct [Ts (2024, 3, 5), Ts (2024, 3, 1), Ts (2024, 3, 5)]
   \<and> \<not> (2024, 3, 5) \<le> ((2024, 3, 1) :: date)"
  by (simp add: plot_transactions_ledger day_total_def t_category_def t_date_def t_amount_def)

section \<open>The reports and the table they are given\<close>

lemma indexed_is_not_ledger: "indexed_frame ts \<noteq> ledger_frame idx ts"
proof
  assume "indexed_frame ts = ledger_frame idx ts"
  then have "columns (indexed_frame ts) = columns (ledger_frame idx ts)" by simp
  then show False by (simp add: indexed_frame_def ledger_frame_def COLUMNS_def)
qed

lemma second_plot_raises:
  "ts \<noteq> [] \<Longrightarrow> plot_transactions (indexed_frame ts) = (indexed_frame ts, Inl (KeyError ''date''))"
  by (simp add: plot_transactions_def getcol_indexed) (simp add: is_empty_def indexed_frame_def)

lemma show_reports_keeps:
  assumes "r < length st"
  shows "fst (show_reports r st) ! r = st ! r"
  using assms
  by (auto simp: show_reports_def copy_def plot_transactions_at_def Let_def nth_append
        split: sum.splits prod.splits)

lemma plot_transactions_at_others:
  "r' \<noteq> r \<Longrightarrow> fst (plot_transactions_at r st) ! r' = st ! r'"
  by (simp add: plot_transactions_at_def split: prod.splits)

text \<open>
  C8 (as amended). \<^verbatim>\<open>plot_transactions\<close> changes the table it is given: for a non-empty
  set the column of dates leaves the table and becomes its row labels, so that the table
  after the call differs from the table before, and a second call on the same table
  raises \<^verbatim>\<open>KeyError\<close> instead of drawing the same lines. It changes no other table,
  and \<^verbatim>\<open>main\<close> hands a copy to each of the two plot functions: after the summary and
  the two plots the retrieved table is what it was.
\<close>

theorem plot_transactions_rewrites_its_table:
  "(ts \<noteq> [] \<longrightarrow>
      fst (plot_transactions (ledger_frame idx ts)) = indexed_frame ts
      \<and> indexed_frame ts \<noteq> ledger_frame idx ts
      \<and> snd (plot_transactions (indexed_frame ts)) = Inl (KeyError ''date''))
   \<and> (r < length st \<longrightarrow> fst (show_reports r st) ! r = st ! r)
   \<and> (r' \<noteq> r \<longrightarrow> fst (plot_transactions_at r st) ! r' = st ! r')"
  using indexed_is_not_ledger[of ts idx] second_plot_raises[of ts] show_reports_keeps[of r st]
    plot_transactions_at_others[of r' r st]
  by (simp add: plot_transactions_ledger)

text \<open>A table of one row, and a store of two tables.\<close>

theorem plot_transactions_rewrites_its_table_witness:
  "[((2024, 3, 1), 500, ''Income'', Some ''Salary'')] \<noteq> ([] :: txn list)
   \<and> fst (plot_transactions (ledger_frame [Pos 0] [((2024, 3, 1), 500, ''Income'', Some ''Salary'')]))
       = \<lparr>columns = [Txt ''amount'', Txt ''category'', Txt ''description''],
          index = [Ts (2024, 3, 1)],
          rows = [[Num 500, Str ''Income'', Str ''Salary'']]\<rparr>
   \<and> (0 :: nat) < length [ledger_frame [Pos 0] [((2024, 3, 1), 500, ''Income'', Some ''Salary'')],
                           ledger_frame [] []]
   \<and> fst (show_reports 0 [ledger_frame [Pos 0] [((2024, 3, 1), 500, ''Income'', Some ''Salary'')],
                           ledger_frame [] []]) ! 0
       = ledger_frame [Pos 0] [((2024, 3, 1), 500, ''Income'', Some ''Salary'')]
   \<and> (1 :: nat) \<noteq> 0
   \<and> fst (plot_transactions_at 0 [ledger_frame [Pos 0] [((2024, 3, 1), 500, ''Income'', Some ''Salary'')],
                                   ledger_frame [] []]) ! 1
       = ledger_frame [] []"
proof -
  note t = plot_transactions_rewrites_its_table
    [of "[((2024, 3, 1), 500, ''Income'', Some ''Salary'')]" "[Pos 0]" 0
        "[ledger_frame [Pos 0] [((2024, 3, 1), 500, ''Income'', Some ''Salary'')], ledger_frame [] []]" 1]
  have a: "[((2024, 3, 1), 500, ''Income'', Some ''Salary'')] \<noteq> ([] :: txn list)" by simp
  have b: "fst (plot_transactions (ledger_frame [Pos 0] [((2024, 3, 1), 500, ''Income'', Some ''Salary'')]))
       = \<lparr>columns = [Txt ''amount'', Txt ''category'', Txt ''description''],
          index = [Ts (2024, 3, 1)],
          rows = [[Num 500, Str ''Income'', Str ''Salary'']]\<rparr>"
    using t a by (simp add: indexed_frame_def txn_cells_def t_date_def)
  have c: "(0 :: nat) < length [ledger_frame [Pos 0] [((2024, 3, 1), 500, ''Income'', Some ''Salary'')],
                           ledger_frame [] []]" by simp
  have d: "fst (show_reports 0 [ledger_frame [Pos 0] [((2024, 3, 1), 500, ''Income'', Some ''Salary'')],
                           ledger_frame [] []]) ! 0
       = ledger_frame [Pos 0] [((2024, 3, 1), 500, ''Income'', Some ''Salary'')]"
    using t c by simp
  have e: "(1 :: nat) \<noteq> 0" by simp
  have f: "fst (plot_transactions_at 0 [ledger_frame [Pos 0] [((2024, 3, 1), 500, ''Income'', Some ''Salary'')],
                                   ledger_frame [] []]) ! 1
       = ledger_frame [] []"
    using t e by simp
  show ?thesis by (intro conjI a b c d e f)
qed

text \<open>C8 as it is stated fails for \<^verbatim>\<open>plot_transactions\<close> on a table of one row: the table
  after the call is not the table before it, and calling the function again on it does
  not give the same output.\<close>

theorem plot_transactions_counterexample:
  "fst (plot_transactions
          \<lparr>columns = [Txt ''date'', Txt ''amount'', Txt ''category'', Txt ''description''],
           index = [Pos 0],
           rows = [[Ts (2024, 3, 1), Num 500, Str ''Income'', Str ''Salary'']]\<rparr>)
     = \<lparr>columns = [Txt ''amount'', Txt ''category'', Txt ''description''],
        index = [Ts (2024, 3, 1)],
        rows = [[Num 500, Str ''Income'', Str ''Salary'']]\<rparr>
   \<and> snd (plot_transactions
          \<lparr>columns = [Txt ''amount'', Txt ''category'', Txt ''description''],
           index = [Ts (2024, 3, 1)],
           rows = [[Num 500, Str ''Income'', Str ''Salary'']]\<rparr>)
     = Inl (KeyError ''date'')"
proof -
  have l: "\<lparr>columns = [Txt ''date'', Txt ''amount'', Txt ''category'', Txt ''description''],
           index = [Pos 0],
           rows = [[Ts (2024, 3, 1), Num 500, Str ''Income'', Str ''Salary'']]\<rparr>
          = ledger_frame [Pos 0] [((2024, 3, 1), 500, ''Income'', Some ''Salary'')]"
    by (simp add: ledger_frame_def COLUMNS_def txn_cells_def)
  have i: "\<lparr>columns = [Txt ''amount'', Txt ''category'', Txt ''description''],
           index = [Ts (2024, 3, 1)],
           rows = [[Num 500, Str ''Income'', Str ''Salary'']]\<rparr>
          = indexed_frame [((2024, 3, 1), 500, ''Income'', Some ''Salary'')]"
    by (simp add: indexed_frame_def txn_cells_def t_date_def)
  show ?thesis
    unfolding l i by (simp add: plot_transactions_ledger second_plot_raises)
qed

section \<open>The check of the range in the view\<close>

lemma show_reports_no_call: "Call_get_transactions a b \<notin> set (snd (show_reports r st))"
  by (auto simp: show_reports_def copy_def plot_transactions_at_def Let_def chart_actions_def
        analysis_actions_def split: sum.splits prod.splits chart.splits analysis.splits)

lemma show_reports_no_call':
  "show_reports r st = (st', acts) \<Longrightarrow> Call_get_transactions a b \<notin> set acts"
  using show_reports_no_call[of a b r st] by simp

text \<open>
  C9. In every run of the view, when the start date is after the end date the page
  shows the error message and nothing else happens: \<^verbatim>\<open>get_transactions\<close> is not called.
  Whenever \<^verbatim>\<open>get_transactions\<close> is called, it is called with the two dates of the view
  and the start date is not after the end date.
\<close>

theorem invalid_range_blocked:
  "(e < s \<longrightarrow> view_transactions s e fs
                = ([], [St_error ''Error: Start date cannot be after end date.'']))
   \<and> (e < s \<longrightarrow> Call_get_transactions a b \<notin> set (snd (view_transactions s e fs)))
   \<and> (Call_get_transactions a b \<in> set (snd (view_transactions s e fs))
        \<longrightarrow> a = s \<and> b = e \<and> s \<le> e)"
proof -
  have 1: "view_transactions s e fs = ([], [St_error ''Error: Start date cannot be after end date.''])"
    if "e < s"
    using that by (simp add: view_transactions_def)
  have 2: "a = s \<and> b = e \<and> s \<le> e"
    if "Call_get_transactions a b \<in> set (snd (view_transactions s e fs))"
  proof (cases "e < s")
    case True
    with that 1 show ?thesis by simp
  next
    case False
    then have le: "s \<le> e" by simp
    from that False show ?thesis
      using le
      by (auto simp: view_transactions_def split: sum.splits if_splits prod.splits
            dest: show_reports_no_call')
  qed
  from 1 2 show ?thesis by auto
qed

text \<open>The range from 31 March to 1 March over a ledger of one row.\<close>

theorem invalid_range_blocked_witness:
  "((2024, 3, 1) :: date) < (2024, 3, 31)
   \<and> view_transactions (2024, 3, 31) (2024, 3, 1)
        (Some [header_line, (Txt ''05.03.2024'', Flt 50, Txt ''Expense'', Txt ''Groceries'')])
      = ([], [St_error ''Error: Start date cannot be after end date.''])"
proof -
  have a: "((2024, 3, 1) :: date) < (2024, 3, 31)" by simp
  have b: "view_transactions (2024, 3, 31) (2024, 3, 1)
        (Some [header_line, (Txt ''05.03.2024'', Flt 50, Txt ''Expense'', Txt ''Groceries'')])
      = ([], [St_error ''Error: Start date cannot be after end date.''])"
    using a invalid_range_blocked [of "(2024, 3, 1)" "(2024, 3, 31)"
        "Some [header_line, (Txt ''05.03.2024'', Flt 50, Txt ''Expense'', Txt ''Groceries'')]"]
    by blast
  show ?thesis by (intro conjI a b)
qed

end
